theory Spec2Isabelle
  imports Complex_Main "HOL-Library.Word"
begin

section \<open>SceneManager: texture registry, material table, transform and binding pipeline\<close>

text \<open>
  A shallow embedding of \<^verbatim>\<open>src/src/SceneManager.cpp\<close>. Every member function
  becomes a function on an explicit state. The state holds the members of the
  \<^verbatim>\<open>SceneManager\<close> object together with the parts of the outside world the
  member functions talk to: the shader manager behind \<^verbatim>\<open>m_pShaderManager\<close>, the
  OpenGL context, the image decoder and the console.

  A C++ \<^verbatim>\<open>float\<close> value is carried as the \<^typ>\<open>real\<close> number it denotes. The
  source itself only stores and copies such values, which rounds nothing. All arithmetic
  on them happens inside glm, an external library that computes in \<^verbatim>\<open>float\<close> and
  rounds: the library is a parameter of the one function that calls it, so that nothing
  proved for every library depends on how it rounds. A \<^verbatim>\<open>GLuint\<close> is a
  \<^typ>\<open>32 word\<close>.
\<close>

subsection \<open>Vectors and matrices of glm\<close>

datatype vec2 = Vec2 real real
datatype vec3 = Vec3 real real real
datatype vec4 = Vec4 real real real real

text \<open>A \<^verbatim>\<open>glm::mat4\<close> is stored by columns: \<^verbatim>\<open>m[i]\<close> is column \<open>i\<close>.\<close>

datatype mat4 = Mat4 vec4 vec4 vec4 vec4

subsection \<open>The formulas of glm, evaluated without rounding\<close>

fun vec4_scale :: "vec4 \<Rightarrow> real \<Rightarrow> vec4" where
  "vec4_scale (Vec4 x y z w) k = Vec4 (x * k) (y * k) (z * k) (w * k)"

fun vec4_add :: "vec4 \<Rightarrow> vec4 \<Rightarrow> vec4" where
  "vec4_add (Vec4 x y z w) (Vec4 x' y' z' w') = Vec4 (x + x') (y + y') (z + z') (w + w')"

text \<open>\<^verbatim>\<open>mat4 * vec4\<close>: the linear combination of the columns.\<close>

fun mat4_mul_vec4 :: "mat4 \<Rightarrow> vec4 \<Rightarrow> vec4" where
  "mat4_mul_vec4 (Mat4 m0 m1 m2 m3) (Vec4 x y z w) =
     vec4_add (vec4_add (vec4_add (vec4_scale m0 x) (vec4_scale m1 y)) (vec4_scale m2 z))
       (vec4_scale m3 w)"

text \<open>\<^verbatim>\<open>mat4 * mat4\<close>: column \<open>j\<close> of the product is the left matrix applied to
  column \<open>j\<close> of the right one.\<close>

fun mat4_mul :: "mat4 \<Rightarrow> mat4 \<Rightarrow> mat4" where
  "mat4_mul a (Mat4 b0 b1 b2 b3) =
     Mat4 (mat4_mul_vec4 a b0) (mat4_mul_vec4 a b1) (mat4_mul_vec4 a b2) (mat4_mul_vec4 a b3)"

definition mat4_identity :: mat4 where
  "mat4_identity = Mat4 (Vec4 1 0 0 0) (Vec4 0 1 0 0) (Vec4 0 0 1 0) (Vec4 0 0 0 1)"

text \<open>\<^verbatim>\<open>glm::radians\<close>.\<close>

definition exact_radians :: "real \<Rightarrow> real" where
  "exact_radians degrees = degrees * (pi / 180)"

text \<open>\<^verbatim>\<open>glm::normalize\<close> on a \<^verbatim>\<open>vec3\<close>: the vector times the inverse square
  root of its dot product with itself.\<close>

fun glm_normalize :: "vec3 \<Rightarrow> vec3" where
  "glm_normalize (Vec3 x y z) =
     (let k = 1 / sqrt (x * x + y * y + z * z) in Vec3 (x * k) (y * k) (z * k))"

text \<open>\<^verbatim>\<open>glm::scale(m, v)\<close>, \<^verbatim>\<open>glm::translate(m, v)\<close> and
  \<^verbatim>\<open>glm::rotate(m, angle, v)\<close> of \<^verbatim>\<open>glm/ext/matrix_transform\<close>.\<close>

fun glm_scale_m :: "mat4 \<Rightarrow> vec3 \<Rightarrow> mat4" where
  "glm_scale_m (Mat4 m0 m1 m2 m3) (Vec3 x y z) =
     Mat4 (vec4_scale m0 x) (vec4_scale m1 y) (vec4_scale m2 z) m3"

fun glm_translate_m :: "mat4 \<Rightarrow> vec3 \<Rightarrow> mat4" where
  "glm_translate_m (Mat4 m0 m1 m2 m3) (Vec3 x y z) =
     Mat4 m0 m1 m2
       (vec4_add (vec4_add (vec4_add (vec4_scale m0 x) (vec4_scale m1 y)) (vec4_scale m2 z)) m3)"

fun glm_rotate_m :: "mat4 \<Rightarrow> real \<Rightarrow> vec3 \<Rightarrow> mat4" where
  "glm_rotate_m (Mat4 m0 m1 m2 m3) angle v =
     (let c = cos angle; s = sin angle in
      case glm_normalize v of Vec3 ax ay az \<Rightarrow>
        let t0 = (1 - c) * ax; t1 = (1 - c) * ay; t2 = (1 - c) * az;
            r00 = c + t0 * ax;      r01 = t0 * ay + s * az; r02 = t0 * az - s * ay;
            r10 = t1 * ax - s * az; r11 = c + t1 * ay;      r12 = t1 * az + s * ax;
            r20 = t2 * ax + s * ay; r21 = t2 * ay - s * ax; r22 = c + t2 * az
        in Mat4
             (vec4_add (vec4_add (vec4_scale m0 r00) (vec4_scale m1 r01)) (vec4_scale m2 r02))
             (vec4_add (vec4_add (vec4_scale m0 r10) (vec4_scale m1 r11)) (vec4_scale m2 r12))
             (vec4_add (vec4_add (vec4_scale m0 r20) (vec4_scale m1 r21)) (vec4_scale m2 r22))
             m3)"

text \<open>The one-argument forms of \<^verbatim>\<open>glm/gtx/transform.hpp\<close>, which the source
  includes: each starts from the identity matrix.\<close>

definition exact_scale :: "vec3 \<Rightarrow> mat4" where
  "exact_scale v = glm_scale_m mat4_identity v"

definition exact_translate :: "vec3 \<Rightarrow> mat4" where
  "exact_translate v = glm_translate_m mat4_identity v"

definition exact_rotate :: "real \<Rightarrow> vec3 \<Rightarrow> mat4" where
  "exact_rotate angle v = glm_rotate_m mat4_identity angle v"

subsection \<open>The glm library as a parameter\<close>

text \<open>
  What \<^verbatim>\<open>SetTransformations\<close> calls in glm: \<^verbatim>\<open>glm::radians\<close>,
  \<^verbatim>\<open>glm::rotate(angle, axis)\<close>, \<^verbatim>\<open>glm::scale(v)\<close>, \<^verbatim>\<open>glm::translate(v)\<close>
  and \<^verbatim>\<open>operator*\<close> on \<^verbatim>\<open>mat4\<close>. The library the program is linked with
  computes each of them in \<^verbatim>\<open>float\<close>; its results are real numbers that differ from
  the exact ones by rounding. It is one value of this record. \<open>glm_exact\<close> is another:
  the same formulas without rounding.
\<close>

record glm =
  glm_radians :: "real \<Rightarrow> real"
  glm_rotate :: "real \<Rightarrow> vec3 \<Rightarrow> mat4"
  glm_scale :: "vec3 \<Rightarrow> mat4"
  glm_translate :: "vec3 \<Rightarrow> mat4"
  glm_mul :: "mat4 \<Rightarrow> mat4 \<Rightarrow> mat4"

definition glm_exact :: glm where
  "glm_exact =
     \<lparr>glm_radians = exact_radians, glm_rotate = exact_rotate, glm_scale = exact_scale,
      glm_translate = exact_translate, glm_mul = mat4_mul\<rparr>"

subsection \<open>The shader-uniform interface\<close>

text \<open>
  The \<^verbatim>\<open>ShaderManager\<close> is an external collaborator. It is modelled by the
  sequence of setter calls it has received, oldest first. A null
  \<^verbatim>\<open>m_pShaderManager\<close> is \<^const>\<open>None\<close>.
\<close>

datatype shader_call =
    setMat4Value string mat4
  | setIntValue string int
  | setBoolValue string bool
  | setFloatValue string real
  | setVec2Value string vec2
  | setVec3Value string vec3
  | setVec4Value string vec4
  | setSampler2DValue string int

type_synonym ShaderManager = "shader_call list"

definition g_ModelName :: string where "g_ModelName = ''model''"
definition g_ColorValueName :: string where "g_ColorValueName = ''objectColor''"
definition g_TextureValueName :: string where "g_TextureValueName = ''objectTexture''"
definition g_UseTextureName :: string where "g_UseTextureName = ''bUseTexture''"
definition g_UseLightingName :: string where "g_UseLightingName = ''bUseLighting''"

subsection \<open>The data of the scene manager\<close>

text \<open>
  \<^verbatim>\<open>TEXTURE_INFO\<close> and \<^verbatim>\<open>OBJECT_MATERIAL\<close> are declared in
  \<^verbatim>\<open>SceneManager.h\<close>; their fields are the ones the source reads and writes.
  The field \<^verbatim>\<open>ID\<close> is passed by address to \<^verbatim>\<open>glGenTextures\<close>, so it is a
  \<^verbatim>\<open>GLuint\<close>.
\<close>

record TEXTURE_INFO =
  tag :: string
  ID :: "32 word"

record OBJECT_MATERIAL =
  ambientColor :: vec3
  ambientStrength :: real
  diffuseColor :: vec3
  specularColor :: vec3
  shininess :: real
  mtag :: string

text \<open>What \<^verbatim>\<open>stbi_load\<close> reports about a decoded image file.\<close>

record image =
  width :: int
  height :: int
  colorChannels :: int

datatype gl_param = GL_TEXTURE_WRAP_S | GL_TEXTURE_WRAP_T | GL_TEXTURE_MIN_FILTER | GL_TEXTURE_MAG_FILTER
datatype gl_value = GL_REPEAT | GL_LINEAR
datatype gl_format = GL_RGB8 | GL_RGBA8

text \<open>The OpenGL entry points of the texture API, all on the target
  \<^verbatim>\<open>GL_TEXTURE_2D\<close>. \<open>glGenTextures\<close> carries the name the driver handed out;
  \<open>glActiveTexture i\<close> stands for \<^verbatim>\<open>glActiveTexture(GL_TEXTURE0 + i)\<close>.\<close>

datatype gl_call =
    glGenTextures "32 word"
  | glDeleteTextures "32 word"
  | glBindTexture "32 word"
  | glTexParameteri gl_param gl_value
  | glTexImage2D gl_format int int
  | glGenerateMipmap
  | glActiveTexture nat

datatype log_line =
    Successfully_loaded_image string int int int
  | Not_implemented_to_handle_image int
  | Could_not_load_image string

datatype error =
    ArrayIndexOutOfBounds nat
  | NullPointerDereference

text \<open>
  The members \<^verbatim>\<open>m_pShaderManager\<close>, \<^verbatim>\<open>m_textureIDs\<close> (an array of 16
  entries), \<^verbatim>\<open>m_loadedTextures\<close> and \<^verbatim>\<open>m_objectMaterials\<close>, followed by the
  outside world:
  \<^item> \<open>gl_calls\<close>: the OpenGL calls issued so far, oldest first;
  \<^item> \<open>gl_names\<close>, \<open>gl_generated\<close>: the texture names the driver hands out, and how
    many it has handed out;
  \<^item> \<open>gl_active_unit\<close>, \<open>gl_bound_2d\<close>: the active texture unit, and the texture
    bound to \<^verbatim>\<open>GL_TEXTURE_2D\<close> on each unit;
  \<^item> \<open>stbi_files\<close>: what the image decoder makes of each file name;
  \<^item> \<open>stbi_flip\<close>: the decoder's vertical-flip flag;
  \<^item> \<open>cout\<close>: the lines printed.
  \<^verbatim>\<open>m_loadedTextures\<close> is an \<^verbatim>\<open>int\<close> that starts at 0 and is only ever
  incremented: a \<^typ>\<open>nat\<close>.
\<close>

record scene =
  m_pShaderManager :: "ShaderManager option"
  m_textureIDs :: "TEXTURE_INFO list"
  m_loadedTextures :: nat
  m_objectMaterials :: "OBJECT_MATERIAL list"
  gl_calls :: "gl_call list"
  gl_names :: "nat \<Rightarrow> 32 word"
  gl_generated :: nat
  gl_active_unit :: nat
  gl_bound_2d :: "nat \<Rightarrow> 32 word"
  stbi_files :: "string \<Rightarrow> image option"
  stbi_flip :: bool
  cout :: "log_line list"

subsection \<open>OpenGL, as far as the source uses it\<close>

definition gl_GenTextures :: "scene \<Rightarrow> 32 word \<times> scene" where
  "gl_GenTextures s =
     (let name = gl_names s (gl_generated s)
      in (name, s\<lparr>gl_calls := gl_calls s @ [glGenTextures name],
                   gl_generated := gl_generated s + 1\<rparr>))"

definition gl_BindTexture :: "32 word \<Rightarrow> scene \<Rightarrow> scene" where
  "gl_BindTexture name s =
     s\<lparr>gl_calls := gl_calls s @ [glBindTexture name],
       gl_bound_2d := (gl_bound_2d s)(gl_active_unit s := name)\<rparr>"

definition gl_ActiveTexture :: "nat \<Rightarrow> scene \<Rightarrow> scene" where
  "gl_ActiveTexture i s =
     s\<lparr>gl_calls := gl_calls s @ [glActiveTexture i], gl_active_unit := i\<rparr>"

definition gl_issue :: "gl_call \<Rightarrow> scene \<Rightarrow> scene" where
  "gl_issue c s = s\<lparr>gl_calls := gl_calls s @ [c]\<rparr>"

text \<open>A call through \<^verbatim>\<open>m_pShaderManager\<close> without a null check.\<close>

definition shader_send :: "shader_call \<Rightarrow> scene \<Rightarrow> error + scene" where
  "shader_send c s =
     (case m_pShaderManager s of
        None \<Rightarrow> Inl NullPointerDereference
      | Some sh \<Rightarrow> Inr (s\<lparr>m_pShaderManager := Some (sh @ [c])\<rparr>))"

text \<open>Reading and writing \<^verbatim>\<open>m_textureIDs[i]\<close>: an index outside the array is an
  error of its own.\<close>

definition textureIDs_at :: "scene \<Rightarrow> nat \<Rightarrow> error + TEXTURE_INFO" where
  "textureIDs_at s i =
     (if i < length (m_textureIDs s) then Inr (m_textureIDs s ! i)
      else Inl (ArrayIndexOutOfBounds i))"

definition textureIDs_set :: "nat \<Rightarrow> TEXTURE_INFO \<Rightarrow> scene \<Rightarrow> error + scene" where
  "textureIDs_set i e s =
     (if i < length (m_textureIDs s) then Inr (s\<lparr>m_textureIDs := (m_textureIDs s)[i := e]\<rparr>)
      else Inl (ArrayIndexOutOfBounds i))"

subsection \<open>Construction\<close>

text \<open>The constructor, run in a given outside world \<open>w\<close> (only the world's fields of
  \<open>w\<close> are kept).\<close>

definition SceneManager :: "ShaderManager option \<Rightarrow> scene \<Rightarrow> scene" where
  "SceneManager pShaderManager w =
     w\<lparr>m_pShaderManager := pShaderManager,
       m_textureIDs := replicate 16 \<lparr>tag = ''/0'', ID = - 1\<rparr>,
       m_loadedTextures := 0,
       m_objectMaterials := []\<rparr>"

subsection \<open>The texture registry\<close>

definition CreateGLTexture :: "scene \<Rightarrow> string \<Rightarrow> string \<Rightarrow> error + (bool \<times> scene)" where
  "CreateGLTexture s filename tg =
     (let s1 = s\<lparr>stbi_flip := True\<rparr> in
      case stbi_files s1 filename of
        Some img \<Rightarrow>
          let s2 = s1\<lparr>cout := cout s1 @
                      [Successfully_loaded_image filename (width img) (height img) (colorChannels img)]\<rparr>;
              (textureID, s3) = gl_GenTextures s2;
              s4 = gl_BindTexture textureID s3;
              s5 = gl_issue (glTexParameteri GL_TEXTURE_WRAP_S GL_REPEAT) s4;
              s6 = gl_issue (glTexParameteri GL_TEXTURE_WRAP_T GL_REPEAT) s5;
              s7 = gl_issue (glTexParameteri GL_TEXTURE_MIN_FILTER GL_LINEAR) s6;
              s8 = gl_issue (glTexParameteri GL_TEXTURE_MAG_FILTER GL_LINEAR) s7
          in
          if colorChannels img = 3 \<or> colorChannels img = 4 then
            let s9 = gl_issue (glTexImage2D (if colorChannels img = 3 then GL_RGB8 else GL_RGBA8)
                                 (width img) (height img)) s8;
                s10 = gl_issue glGenerateMipmap s9;
                s11 = gl_BindTexture 0 s10
            in
            (case textureIDs_set (m_loadedTextures s11) \<lparr>tag = tg, ID = textureID\<rparr> s11 of
               Inl e \<Rightarrow> Inl e
             | Inr s12 \<Rightarrow> Inr (True, s12\<lparr>m_loadedTextures := m_loadedTextures s12 + 1\<rparr>))
          else
            Inr (False, s8\<lparr>cout := cout s8 @ [Not_implemented_to_handle_image (colorChannels img)]\<rparr>)
      | None \<Rightarrow> Inr (False, s1\<lparr>cout := cout s1 @ [Could_not_load_image filename]\<rparr>))"

function BindGLTextures_loop :: "scene \<Rightarrow> nat \<Rightarrow> error + scene" where
  "BindGLTextures_loop s i =
     (if i < m_loadedTextures s then
        (case textureIDs_at s i of
           Inl e \<Rightarrow> Inl e
         | Inr entry \<Rightarrow> BindGLTextures_loop (gl_BindTexture (ID entry) (gl_ActiveTexture i s)) (i + 1))
      else Inr s)"
  by pat_completeness auto
termination
  by (relation "measure (\<lambda>(s, i). m_loadedTextures s - i)")
     (auto simp: gl_BindTexture_def gl_ActiveTexture_def)

definition BindGLTextures :: "scene \<Rightarrow> error + scene" where
  "BindGLTextures s = BindGLTextures_loop s 0"

function DestroyGLTextures_loop :: "scene \<Rightarrow> nat \<Rightarrow> error + scene" where
  "DestroyGLTextures_loop s i =
     (if i < m_loadedTextures s then
        (case textureIDs_at s i of
           Inl e \<Rightarrow> Inl e
         | Inr entry \<Rightarrow>
             let (name, s1) = gl_GenTextures s in
             (case textureIDs_set i (entry\<lparr>ID := name\<rparr>) s1 of
                Inl e \<Rightarrow> Inl e
              | Inr s2 \<Rightarrow> DestroyGLTextures_loop s2 (i + 1)))
      else Inr s)"
  by pat_completeness auto
termination
  by (relation "measure (\<lambda>(s, i). m_loadedTextures s - i)")
     (auto simp: gl_GenTextures_def textureIDs_set_def Let_def split: if_splits)

definition DestroyGLTextures :: "scene \<Rightarrow> error + scene" where
  "DestroyGLTextures s = DestroyGLTextures_loop s 0"

text \<open>The two lookups. The loop state is that of the source: the result so far, the
  index and the flag \<^verbatim>\<open>bFound\<close>. \<^verbatim>\<open>FindTextureID\<close> returns an \<^verbatim>\<open>int\<close>: the
  stored \<^verbatim>\<open>GLuint\<close> is converted, which keeps its 32 bits.\<close>

function FindTextureID_loop :: "scene \<Rightarrow> string \<Rightarrow> int \<Rightarrow> nat \<Rightarrow> bool \<Rightarrow> error + int" where
  "FindTextureID_loop s tg textureID index bFound =
     (if index < m_loadedTextures s \<and> bFound = False then
        (case textureIDs_at s index of
           Inl e \<Rightarrow> Inl e
         | Inr entry \<Rightarrow>
             if tag entry = tg then FindTextureID_loop s tg (sint (ID entry)) index True
             else FindTextureID_loop s tg textureID (index + 1) bFound)
      else Inr textureID)"
  by pat_completeness auto
termination
  by (relation "measure (\<lambda>(s, tg, r, index, bFound).
        2 * (m_loadedTextures s - index) + (if bFound then 0 else 1))") auto

definition FindTextureID :: "scene \<Rightarrow> string \<Rightarrow> error + int" where
  "FindTextureID s tg = FindTextureID_loop s tg (- 1) 0 False"

function FindTextureSlot_loop :: "scene \<Rightarrow> string \<Rightarrow> int \<Rightarrow> nat \<Rightarrow> bool \<Rightarrow> error + int" where
  "FindTextureSlot_loop s tg textureSlot index bFound =
     (if index < m_loadedTextures s \<and> bFound = False then
        (case textureIDs_at s index of
           Inl e \<Rightarrow> Inl e
         | Inr entry \<Rightarrow>
             if tag entry = tg then FindTextureSlot_loop s tg (int index) index True
             else FindTextureSlot_loop s tg textureSlot (index + 1) bFound)
      else Inr textureSlot)"
  by pat_completeness auto
termination
  by (relation "measure (\<lambda>(s, tg, r, index, bFound).
        2 * (m_loadedTextures s - index) + (if bFound then 0 else 1))") auto

definition FindTextureSlot :: "scene \<Rightarrow> string \<Rightarrow> error + int" where
  "FindTextureSlot s tg = FindTextureSlot_loop s tg (- 1) 0 False"

subsection \<open>The material table\<close>

text \<open>\<^verbatim>\<open>FindMaterial\<close> writes its answer through the reference parameter
  \<^verbatim>\<open>material\<close>: the model takes the value the caller's variable holds on entry and
  returns the value it holds on exit, beside the \<^verbatim>\<open>bool\<close>. The five fields are
  copied one by one; the tag is not.\<close>

function FindMaterial_loop ::
  "OBJECT_MATERIAL list \<Rightarrow> string \<Rightarrow> nat \<Rightarrow> bool \<Rightarrow> OBJECT_MATERIAL \<Rightarrow> OBJECT_MATERIAL" where
  "FindMaterial_loop ms tg index bFound material =
     (if index < length ms \<and> bFound = False then
        (if mtag (ms ! index) = tg then
           FindMaterial_loop ms tg index True
             (material\<lparr>ambientColor := ambientColor (ms ! index),
                       ambientStrength := ambientStrength (ms ! index),
                       diffuseColor := diffuseColor (ms ! index),
                       specularColor := specularColor (ms ! index),
                       shininess := shininess (ms ! index)\<rparr>)
         else FindMaterial_loop ms tg (index + 1) bFound material)
      else material)"
  by pat_completeness auto
termination
  by (relation "measure (\<lambda>(ms, tg, index, bFound, material).
        2 * (length ms - index) + (if bFound then 0 else 1))") auto

definition FindMaterial :: "scene \<Rightarrow> string \<Rightarrow> OBJECT_MATERIAL \<Rightarrow> bool \<times> OBJECT_MATERIAL" where
  "FindMaterial s tg material =
     (if length (m_objectMaterials s) = 0 then (False, material)
      else (True, FindMaterial_loop (m_objectMaterials s) tg 0 False material))"

subsection \<open>The transform and binding pipeline\<close>

text \<open>\<^verbatim>\<open>SetTransformations\<close>, linked with the glm library \<open>G\<close>. The product
  \<^verbatim>\<open>translation * rotationX * rotationY * rotationZ * scale\<close> associates to the
  left, as C++ reads it.\<close>

definition SetTransformations ::
  "glm \<Rightarrow> scene \<Rightarrow> vec3 \<Rightarrow> real \<Rightarrow> real \<Rightarrow> real \<Rightarrow> vec3 \<Rightarrow> scene" where
  "SetTransformations G s scaleXYZ XrotationDegrees YrotationDegrees ZrotationDegrees positionXYZ =
     (let scale = glm_scale G scaleXYZ;
          rotationX = glm_rotate G (glm_radians G XrotationDegrees) (Vec3 1 0 0);
          rotationY = glm_rotate G (glm_radians G YrotationDegrees) (Vec3 0 1 0);
          rotationZ = glm_rotate G (glm_radians G ZrotationDegrees) (Vec3 0 0 1);
          translation = glm_translate G positionXYZ;
          modelView =
            glm_mul G (glm_mul G (glm_mul G (glm_mul G translation rotationX) rotationY) rotationZ)
              scale
      in case m_pShaderManager s of
           None \<Rightarrow> s
         | Some sh \<Rightarrow> s\<lparr>m_pShaderManager := Some (sh @ [setMat4Value g_ModelName modelView])\<rparr>)"

definition SetShaderColor :: "scene \<Rightarrow> real \<Rightarrow> real \<Rightarrow> real \<Rightarrow> real \<Rightarrow> scene" where
  "SetShaderColor s redColorValue greenColorValue blueColorValue alphaValue =
     (let currentColor = Vec4 redColorValue greenColorValue blueColorValue alphaValue
      in case m_pShaderManager s of
           None \<Rightarrow> s
         | Some sh \<Rightarrow>
             s\<lparr>m_pShaderManager :=
                 Some (sh @ [setIntValue g_UseTextureName 0,
                             setVec4Value g_ColorValueName currentColor])\<rparr>)"

definition SetShaderTexture :: "scene \<Rightarrow> string \<Rightarrow> error + scene" where
  "SetShaderTexture s textureTag =
     (case m_pShaderManager s of
        None \<Rightarrow> Inr s
      | Some sh \<Rightarrow>
          let s1 = s\<lparr>m_pShaderManager := Some (sh @ [setIntValue g_UseTextureName 1])\<rparr> in
          (case FindTextureSlot s1 textureTag of
             Inl e \<Rightarrow> Inl e
           | Inr textureID \<Rightarrow> shader_send (setSampler2DValue g_TextureValueName textureID) s1))"

definition SetTextureUVScale :: "scene \<Rightarrow> real \<Rightarrow> real \<Rightarrow> scene" where
  "SetTextureUVScale s u v =
     (case m_pShaderManager s of
        None \<Rightarrow> s
      | Some sh \<Rightarrow> s\<lparr>m_pShaderManager := Some (sh @ [setVec2Value ''UVscale'' (Vec2 u v)])\<rparr>)"

fun shader_send_all :: "shader_call list \<Rightarrow> scene \<Rightarrow> error + scene" where
  "shader_send_all [] s = Inr s"
| "shader_send_all (c # cs) s =
     (case shader_send c s of Inl e \<Rightarrow> Inl e | Inr s' \<Rightarrow> shader_send_all cs s')"

text \<open>\<^verbatim>\<open>SetShaderMaterial\<close> declares the local \<^verbatim>\<open>OBJECT_MATERIAL material;\<close>
  without initialising it. Its content at that point is whatever the stack holds: the
  parameter \<open>uninitialised\<close>.\<close>

definition SetShaderMaterial :: "scene \<Rightarrow> string \<Rightarrow> OBJECT_MATERIAL \<Rightarrow> error + scene" where
  "SetShaderMaterial s materialTag uninitialised =
     (if length (m_objectMaterials s) > 0 then
        (let (bReturn, material) = FindMaterial s materialTag uninitialised in
         if bReturn = True then
           shader_send_all
             [setVec3Value ''material.ambientColor'' (ambientColor material),
              setFloatValue ''material.ambientStrength'' (ambientStrength material),
              setVec3Value ''material.diffuseColor'' (diffuseColor material),
              setVec3Value ''material.specularColor'' (specularColor material),
              setFloatValue ''material.shininess'' (shininess material)] s
         else Inr s)
      else Inr s)"

subsection \<open>Scene preparation\<close>

text \<open>A run of \<^verbatim>\<open>CreateGLTexture\<close> calls, one per (file name, tag), each made
  whatever the one before returned, as \<^verbatim>\<open>LoadSceneTextures\<close> makes them. The
  results are returned in call order.\<close>

fun CreateGLTextures :: "scene \<Rightarrow> (string \<times> string) list \<Rightarrow> error + (bool list \<times> scene)" where
  "CreateGLTextures s [] = Inr ([], s)"
| "CreateGLTextures s ((filename, tg) # rest) =
     (case CreateGLTexture s filename tg of
        Inl e \<Rightarrow> Inl e
      | Inr (bReturn, s') \<Rightarrow>
          (case CreateGLTextures s' rest of
             Inl e \<Rightarrow> Inl e
           | Inr (rs, s'') \<Rightarrow> Inr (bReturn # rs, s'')))"

definition LoadSceneTextures :: "scene \<Rightarrow> error + scene" where
  "LoadSceneTextures s =
     (case CreateGLTextures s
             [(''C:/Users/NFigu/Pictures/dfc59b634fc228887ca8668526b24100.jpg'', ''Wood''),
              (''C:/Users/NFigu/Pictures/images.jpg'', ''Metal''),
              (''C:/Users/NFigu/Pictures/download.jpg'', ''Magazine Cover''),
              (''C:/Users/NFigu/Pictures/d7i46lm-d44c1ab4-227d-4009-9114-e549c1420d21.jpg'',
               ''Black Metal''),
              (''C:/Users/NFigu/Pictures/images (1).jpg'', ''White'')] of
        Inl e \<Rightarrow> Inl e
      | Inr (rs, s') \<Rightarrow> BindGLTextures s')"

definition paperMaterial :: OBJECT_MATERIAL where
  "paperMaterial =
     \<lparr>ambientColor = Vec3 0.8 0.8 0.8, ambientStrength = 0.2, diffuseColor = Vec3 0.9 0.9 0.9,
      specularColor = Vec3 0.05 0.05 0.05, shininess = 10, mtag = ''Paper''\<rparr>"

definition woodMaterial :: OBJECT_MATERIAL where
  "woodMaterial =
     \<lparr>ambientColor = Vec3 0.2 0.1 0.1, ambientStrength = 0.3, diffuseColor = Vec3 0.6 0.4 0.2,
      specularColor = Vec3 0.1 0.1 0.1, shininess = 25, mtag = ''Wood''\<rparr>"

definition plasticMaterial :: OBJECT_MATERIAL where
  "plasticMaterial =
     \<lparr>ambientColor = Vec3 0.1 0.1 0.1, ambientStrength = 0.1, diffuseColor = Vec3 0.7 0.7 0.7,
      specularColor = Vec3 0.6 0.6 0.6, shininess = 30, mtag = ''Plastic''\<rparr>"

definition metalMaterial :: OBJECT_MATERIAL where
  "metalMaterial =
     \<lparr>ambientColor = Vec3 0.1 0.1 0.1, ambientStrength = 0.1, diffuseColor = Vec3 0.7 0.7 0.7,
      specularColor = Vec3 1 1 1, shininess = 80, mtag = ''Metal''\<rparr>"

definition DefineObjectMaterials :: "scene \<Rightarrow> scene" where
  "DefineObjectMaterials s =
     s\<lparr>m_objectMaterials :=
         m_objectMaterials s @ [paperMaterial, woodMaterial, plasticMaterial, metalMaterial]\<rparr>"

subsection \<open>The composition the specification asks for\<close>

text \<open>The specification's \<open>ComposeModelMatrix\<close>: Translation \<times> RotationX \<times> RotationY
  \<times> RotationZ \<times> Scale, written with the textbook matrices (angles in degrees), to be
  compared with what \<^const>\<open>SetTransformations\<close> builds through glm.\<close>

fun Scale :: "vec3 \<Rightarrow> mat4" where
  "Scale (Vec3 x y z) = Mat4 (Vec4 x 0 0 0) (Vec4 0 y 0 0) (Vec4 0 0 z 0) (Vec4 0 0 0 1)"

fun Translation :: "vec3 \<Rightarrow> mat4" where
  "Translation (Vec3 x y z) = Mat4 (Vec4 1 0 0 0) (Vec4 0 1 0 0) (Vec4 0 0 1 0) (Vec4 x y z 1)"

definition RotationX :: "real \<Rightarrow> mat4" where
  "RotationX d =
     (let a = d * pi / 180 in
      Mat4 (Vec4 1 0 0 0) (Vec4 0 (cos a) (sin a) 0) (Vec4 0 (- sin a) (cos a) 0) (Vec4 0 0 0 1))"

definition RotationY :: "real \<Rightarrow> mat4" where
  "RotationY d =
     (let a = d * pi / 180 in
      Mat4 (Vec4 (cos a) 0 (- sin a) 0) (Vec4 0 1 0 0) (Vec4 (sin a) 0 (cos a) 0) (Vec4 0 0 0 1))"

definition RotationZ :: "real \<Rightarrow> mat4" where
  "RotationZ d =
     (let a = d * pi / 180 in
      Mat4 (Vec4 (cos a) (sin a) 0 0) (Vec4 (- sin a) (cos a) 0 0) (Vec4 0 0 1 0) (Vec4 0 0 0 1))"

definition ComposeModelMatrix :: "vec3 \<Rightarrow> real \<Rightarrow> real \<Rightarrow> real \<Rightarrow> vec3 \<Rightarrow> mat4" where
  "ComposeModelMatrix scale rx ry rz translation =
     mat4_mul (mat4_mul (mat4_mul (mat4_mul (Translation translation) (RotationX rx))
       (RotationY ry)) (RotationZ rz)) (Scale scale)"

subsection \<open>Well-formed registries\<close>

text \<open>The array has its 16 entries and the counter does not point past them. The
  constructor establishes this.\<close>

definition registry_ok :: "scene \<Rightarrow> bool" where
  "registry_ok s \<longleftrightarrow> length (m_textureIDs s) = 16 \<and> m_loadedTextures s \<le> 16"

text \<open>The entries registered so far, in registration order.\<close>

definition registered :: "scene \<Rightarrow> TEXTURE_INFO list" where
  "registered s = take (m_loadedTextures s) (m_textureIDs s)"

text \<open>Whether \<^verbatim>\<open>stbi_load\<close> decodes the file into an image of 3 or 4 channels.\<close>

definition loadable :: "scene \<Rightarrow> string \<Rightarrow> bool" where
  "loadable s filename =
     (case stbi_files s filename of
        None \<Rightarrow> False
      | Some img \<Rightarrow> colorChannels img = 3 \<or> colorChannels img = 4)"

text \<open>An outside world for concrete runs: no OpenGL call made yet, the driver hands
  out the names 1, 2, 3, ..., and the decoder knows three files.\<close>

definition demo_files :: "string \<Rightarrow> image option" where
  "demo_files filename =
     (if filename = ''wood.jpg'' then Some \<lparr>width = 64, height = 64, colorChannels = 3\<rparr>
      else if filename = ''glass.png'' then Some \<lparr>width = 32, height = 16, colorChannels = 4\<rparr>
      else if filename = ''grey.png'' then Some \<lparr>width = 8, height = 8, colorChannels = 1\<rparr>
      else None)"

definition demo_world :: scene where
  "demo_world =
     \<lparr>m_pShaderManager = None, m_textureIDs = [], m_loadedTextures = 0, m_objectMaterials = [],
      gl_calls = [], gl_names = (\<lambda>n. of_nat (n + 1)), gl_generated = 0,
      gl_active_unit = 0, gl_bound_2d = (\<lambda>u. 0),
      stbi_files = demo_files, stbi_flip = False, cout = []\<rparr>"

text \<open>A scene manager with a shader manager attached whose registry is the one that
  loading \<open>wood.jpg\<close> and \<open>glass.png\<close> under the tags Wood and Glass leaves: two
  entries registered, fourteen as the constructor left them, two names handed out by the
  driver. The log of OpenGL calls starts empty.\<close>

definition demo_loaded :: scene where
  "demo_loaded =
     demo_world
       \<lparr>m_pShaderManager := Some [],
        m_textureIDs := \<lparr>tag = ''Wood'', ID = 1\<rparr> # \<lparr>tag = ''Glass'', ID = 2\<rparr> #
                        replicate 14 \<lparr>tag = ''/0'', ID = - 1\<rparr>,
        m_loadedTextures := 2,
        gl_generated := 2\<rparr>"

section \<open>Properties\<close>

subsection \<open>The model matrix\<close>

text \<open>Without rounding, what glm builds for the three axes, for a scale and for a
  translation are the textbook matrices.\<close>

lemma exact_scale_Scale: "exact_scale v = Scale v"
  by (cases v) (simp add: exact_scale_def mat4_identity_def)

lemma exact_translate_Translation: "exact_translate v = Translation v"
  by (cases v) (simp add: exact_translate_def mat4_identity_def)

lemma exact_rotate_X: "exact_rotate (exact_radians d) (Vec3 1 0 0) = RotationX d"
  by (simp add: exact_rotate_def exact_radians_def RotationX_def mat4_identity_def Let_def)

lemma exact_rotate_Y: "exact_rotate (exact_radians d) (Vec3 0 1 0) = RotationY d"
  by (simp add: exact_rotate_def exact_radians_def RotationY_def mat4_identity_def Let_def)

lemma exact_rotate_Z: "exact_rotate (exact_radians d) (Vec3 0 0 1) = RotationZ d"
  by (simp add: exact_rotate_def exact_radians_def RotationZ_def mat4_identity_def Let_def)

text \<open>Applying a matrix is linear, so applying a product is applying its factors from
  right to left.\<close>

lemma mat4_mul_vec4_add:
  "mat4_mul_vec4 a (vec4_add u v) = vec4_add (mat4_mul_vec4 a u) (mat4_mul_vec4 a v)"
proof (cases a)
  case (Mat4 m0 m1 m2 m3)
  then show ?thesis
    by (cases u; cases v; cases m0; cases m1; cases m2; cases m3) (simp add: algebra_simps)
qed

lemma mat4_mul_vec4_scale:
  "mat4_mul_vec4 a (vec4_scale u k) = vec4_scale (mat4_mul_vec4 a u) k"
proof (cases a)
  case (Mat4 m0 m1 m2 m3)
  then show ?thesis
    by (cases u; cases m0; cases m1; cases m2; cases m3) (simp add: algebra_simps)
qed

lemma mat4_mul_apply:
  "mat4_mul_vec4 (mat4_mul a b) v = mat4_mul_vec4 a (mat4_mul_vec4 b v)"
  by (cases b; cases v) (simp add: mat4_mul_vec4_add mat4_mul_vec4_scale)

lemma SetTransformations_exact:
  "SetTransformations glm_exact s scaleXYZ rx ry rz positionXYZ =
     (case m_pShaderManager s of
        None \<Rightarrow> s
      | Some sh \<Rightarrow>
          s\<lparr>m_pShaderManager :=
              Some (sh @ [setMat4Value ''model''
                            (ComposeModelMatrix scaleXYZ rx ry rz positionXYZ)])\<rparr>)"
  by (cases "m_pShaderManager s")
     (simp_all add: SetTransformations_def glm_exact_def ComposeModelMatrix_def g_ModelName_def
        exact_scale_Scale exact_translate_Translation exact_rotate_X exact_rotate_Y
        exact_rotate_Z)

text \<open>
  C1, as stated, fails on the order in which the rotations reach a column vector.
  With scale (1,1,1), rotations (90,90,0) and no translation, the matrix sent (computed
  without rounding) takes the point (1,0,0) to (0,1,0). Scaling, then rotating about X,
  then about Y, then about Z, then translating takes it to (0,0,-1).
\<close>

theorem SetTransformations_rotation_order_counterexample:
  "m_pShaderManager
     (SetTransformations glm_exact (SceneManager (Some []) demo_world)
        (Vec3 1 1 1) 90 90 0 (Vec3 0 0 0)) =
     Some [setMat4Value ''model''
             (Mat4 (Vec4 0 1 0 0) (Vec4 0 0 1 0) (Vec4 1 0 0 0) (Vec4 0 0 0 1))]
   \<and> mat4_mul_vec4 (Mat4 (Vec4 0 1 0 0) (Vec4 0 0 1 0) (Vec4 1 0 0 0) (Vec4 0 0 0 1))
       (Vec4 1 0 0 1) = Vec4 0 1 0 1
   \<and> mat4_mul_vec4 (Translation (Vec3 0 0 0))
       (mat4_mul_vec4 (RotationZ 0)
         (mat4_mul_vec4 (RotationY 90)
           (mat4_mul_vec4 (RotationX 90)
             (mat4_mul_vec4 (Scale (Vec3 1 1 1)) (Vec4 1 0 0 1))))) = Vec4 0 0 (- 1) 1
   \<and> mat4_mul_vec4 (Mat4 (Vec4 0 1 0 0) (Vec4 0 0 1 0) (Vec4 1 0 0 0) (Vec4 0 0 0 1))
       (Vec4 1 0 0 1) \<noteq>
     mat4_mul_vec4 (Translation (Vec3 0 0 0))
       (mat4_mul_vec4 (RotationZ 0)
         (mat4_mul_vec4 (RotationY 90)
           (mat4_mul_vec4 (RotationX 90)
             (mat4_mul_vec4 (Scale (Vec3 1 1 1)) (Vec4 1 0 0 1)))))"
proof -
  have m: "ComposeModelMatrix (Vec3 1 1 1) 90 90 0 (Vec3 0 0 0) =
      Mat4 (Vec4 0 1 0 0) (Vec4 0 0 1 0) (Vec4 1 0 0 0) (Vec4 0 0 0 1)"
    by (simp add: ComposeModelMatrix_def RotationX_def RotationY_def RotationZ_def)
  have a: "m_pShaderManager
     (SetTransformations glm_exact (SceneManager (Some []) demo_world)
        (Vec3 1 1 1) 90 90 0 (Vec3 0 0 0)) =
     Some [setMat4Value ''model''
             (Mat4 (Vec4 0 1 0 0) (Vec4 0 0 1 0) (Vec4 1 0 0 0) (Vec4 0 0 0 1))]"
    by (simp add: SetTransformations_exact m SceneManager_def)
  have b: "mat4_mul_vec4 (Mat4 (Vec4 0 1 0 0) (Vec4 0 0 1 0) (Vec4 1 0 0 0) (Vec4 0 0 0 1))
       (Vec4 1 0 0 1) = Vec4 0 1 0 1"
    by simp
  have c: "mat4_mul_vec4 (Translation (Vec3 0 0 0))
       (mat4_mul_vec4 (RotationZ 0)
         (mat4_mul_vec4 (RotationY 90)
           (mat4_mul_vec4 (RotationX 90)
             (mat4_mul_vec4 (Scale (Vec3 1 1 1)) (Vec4 1 0 0 1))))) = Vec4 0 0 (- 1) 1"
    by (simp add: RotationX_def RotationY_def RotationZ_def)
  have d: "Vec4 0 1 0 1 \<noteq> Vec4 0 0 (- 1) 1"
    by simp
  show ?thesis
    using a b c d by (simp only: simp_thms)
qed

text \<open>
  C1, amended. With a shader manager attached, \<^const>\<open>SetTransformations\<close> sends exactly
  one uniform, the matrix named \<open>model\<close>. Whatever glm library it is linked with, the
  float one included, the matrix is the library's product
  translate \<times> rotate about X \<times> rotate about Y \<times> rotate about Z \<times> scale, in this
  order, multiplied from the left. Computed without rounding, this matrix is the
  specification's \<^const>\<open>ComposeModelMatrix\<close>, that is Translation \<times> RotationX \<times>
  RotationY \<times> RotationZ \<times> Scale with the textbook matrices, and applied to a column
  vector it scales first, then rotates about Z, then about Y, then about X, and
  translates last.
\<close>

theorem SetTransformations_composes:
  assumes "m_pShaderManager s = Some sh"
  shows "SetTransformations G s scaleXYZ rx ry rz positionXYZ =
           s\<lparr>m_pShaderManager :=
               Some (sh @ [setMat4Value ''model''
                 (glm_mul G
                   (glm_mul G
                     (glm_mul G
                       (glm_mul G (glm_translate G positionXYZ)
                         (glm_rotate G (glm_radians G rx) (Vec3 1 0 0)))
                       (glm_rotate G (glm_radians G ry) (Vec3 0 1 0)))
                     (glm_rotate G (glm_radians G rz) (Vec3 0 0 1)))
                   (glm_scale G scaleXYZ))])\<rparr>
         \<and> SetTransformations glm_exact s scaleXYZ rx ry rz positionXYZ =
             s\<lparr>m_pShaderManager :=
                 Some (sh @ [setMat4Value ''model''
                               (ComposeModelMatrix scaleXYZ rx ry rz positionXYZ)])\<rparr>
         \<and> ComposeModelMatrix scaleXYZ rx ry rz positionXYZ =
             mat4_mul (mat4_mul (mat4_mul (mat4_mul (Translation positionXYZ) (RotationX rx))
               (RotationY ry)) (RotationZ rz)) (Scale scaleXYZ)
         \<and> mat4_mul_vec4 (ComposeModelMatrix scaleXYZ rx ry rz positionXYZ) v =
             mat4_mul_vec4 (Translation positionXYZ)
               (mat4_mul_vec4 (RotationX rx)
                 (mat4_mul_vec4 (RotationY ry)
                   (mat4_mul_vec4 (RotationZ rz)
                     (mat4_mul_vec4 (Scale scaleXYZ) v))))"
proof (intro conjI)
  show "SetTransformations G s scaleXYZ rx ry rz positionXYZ =
           s\<lparr>m_pShaderManager :=
               Some (sh @ [setMat4Value ''model''
                 (glm_mul G
                   (glm_mul G
                     (glm_mul G
                       (glm_mul G (glm_translate G positionXYZ)
                         (glm_rotate G (glm_radians G rx) (Vec3 1 0 0)))
                       (glm_rotate G (glm_radians G ry) (Vec3 0 1 0)))
                     (glm_rotate G (glm_radians G rz) (Vec3 0 0 1)))
                   (glm_scale G scaleXYZ))])\<rparr>"
    using assms by (simp add: SetTransformations_def g_ModelName_def)
  show "SetTransformations glm_exact s scaleXYZ rx ry rz positionXYZ =
             s\<lparr>m_pShaderManager :=
                 Some (sh @ [setMat4Value ''model''
                               (ComposeModelMatrix scaleXYZ rx ry rz positionXYZ)])\<rparr>"
    using assms by (simp add: SetTransformations_exact)
  show "ComposeModelMatrix scaleXYZ rx ry rz positionXYZ =
             mat4_mul (mat4_mul (mat4_mul (mat4_mul (Translation positionXYZ) (RotationX rx))
               (RotationY ry)) (RotationZ rz)) (Scale scaleXYZ)"
    by (simp add: ComposeModelMatrix_def)
  show "mat4_mul_vec4 (ComposeModelMatrix scaleXYZ rx ry rz positionXYZ) v =
             mat4_mul_vec4 (Translation positionXYZ)
               (mat4_mul_vec4 (RotationX rx)
                 (mat4_mul_vec4 (RotationY ry)
                   (mat4_mul_vec4 (RotationZ rz)
                     (mat4_mul_vec4 (Scale scaleXYZ) v))))"
    by (simp add: ComposeModelMatrix_def mat4_mul_apply)
qed

text \<open>The specification's example, scale (2,1,1), rotation (0,90,0), translation
  (1,0,0), and one where two rotations meet: rotation (90,90,0).\<close>

lemma ComposeModelMatrix_example:
  "ComposeModelMatrix (Vec3 2 1 1) 0 90 0 (Vec3 1 0 0) =
     Mat4 (Vec4 0 0 (- 2) 0) (Vec4 0 1 0 0) (Vec4 1 0 0 0) (Vec4 1 0 0 1)"
  by (simp add: ComposeModelMatrix_def RotationX_def RotationY_def RotationZ_def)

lemma ComposeModelMatrix_two_rotations:
  "ComposeModelMatrix (Vec3 2 1 1) 90 90 0 (Vec3 1 0 0) =
     Mat4 (Vec4 0 2 0 0) (Vec4 0 0 1 0) (Vec4 1 0 0 0) (Vec4 1 0 0 1)"
  by (simp add: ComposeModelMatrix_def RotationX_def RotationY_def RotationZ_def)

theorem SetTransformations_composes_witness:
  "m_pShaderManager (SceneManager (Some []) demo_world) = Some []
   \<and> m_pShaderManager
       (SetTransformations glm_exact (SceneManager (Some []) demo_world)
          (Vec3 2 1 1) 90 90 0 (Vec3 1 0 0)) =
     Some [setMat4Value ''model''
             (Mat4 (Vec4 0 2 0 0) (Vec4 0 0 1 0) (Vec4 1 0 0 0) (Vec4 1 0 0 1))]
   \<and> mat4_mul_vec4 (ComposeModelMatrix (Vec3 2 1 1) 90 90 0 (Vec3 1 0 0)) (Vec4 1 1 1 1) =
     mat4_mul_vec4 (Translation (Vec3 1 0 0))
       (mat4_mul_vec4 (RotationX 90)
         (mat4_mul_vec4 (RotationY 90)
           (mat4_mul_vec4 (RotationZ 0)
             (mat4_mul_vec4 (Scale (Vec3 2 1 1)) (Vec4 1 1 1 1)))))
   \<and> mat4_mul_vec4 (ComposeModelMatrix (Vec3 2 1 1) 90 90 0 (Vec3 1 0 0)) (Vec4 1 1 1 1) =
     Vec4 2 2 1 1"
proof -
  have h: "m_pShaderManager (SceneManager (Some []) demo_world) = Some []"
    by (simp add: SceneManager_def)
  note t = SetTransformations_composes
    [OF h, of glm_exact "Vec3 2 1 1" 90 90 0 "Vec3 1 0 0" "Vec4 1 1 1 1"]
  have a: "m_pShaderManager
       (SetTransformations glm_exact (SceneManager (Some []) demo_world)
          (Vec3 2 1 1) 90 90 0 (Vec3 1 0 0)) =
     Some [setMat4Value ''model''
             (Mat4 (Vec4 0 2 0 0) (Vec4 0 0 1 0) (Vec4 1 0 0 0) (Vec4 1 0 0 1))]"
    by (simp add: conjunct1 [OF conjunct2 [OF t]] ComposeModelMatrix_two_rotations)
  have b: "mat4_mul_vec4 (ComposeModelMatrix (Vec3 2 1 1) 90 90 0 (Vec3 1 0 0)) (Vec4 1 1 1 1) =
     mat4_mul_vec4 (Translation (Vec3 1 0 0))
       (mat4_mul_vec4 (RotationX 90)
         (mat4_mul_vec4 (RotationY 90)
           (mat4_mul_vec4 (RotationZ 0)
             (mat4_mul_vec4 (Scale (Vec3 2 1 1)) (Vec4 1 1 1 1)))))"
    by (rule conjunct2 [OF conjunct2 [OF conjunct2 [OF t]]])
  have c: "mat4_mul_vec4 (ComposeModelMatrix (Vec3 2 1 1) 90 90 0 (Vec3 1 0 0)) (Vec4 1 1 1 1) =
     Vec4 2 2 1 1"
    by (simp add: ComposeModelMatrix_two_rotations)
  show ?thesis
    using h a b c by (intro conjI)
qed

text \<open>The order is part of the contract: the rotations about X and Y do not
  commute.\<close>

lemma rotation_order_matters:
  "mat4_mul (RotationX 90) (RotationY 90) \<noteq> mat4_mul (RotationY 90) (RotationX 90)"
  by (simp add: RotationX_def RotationY_def)

subsection \<open>A null shader manager\<close>

text \<open>
  C10. With a null \<^verbatim>\<open>m_pShaderManager\<close>, \<^const>\<open>SetTransformations\<close> (with any glm),
  \<^const>\<open>SetShaderColor\<close>, \<^const>\<open>SetShaderTexture\<close> and \<^const>\<open>SetTextureUVScale\<close>
  leave the whole state as it was, for every input: no uniform is sent and the null
  pointer is not dereferenced.
\<close>

theorem null_shader_manager_noop:
  assumes "m_pShaderManager s = None"
  shows "SetTransformations G s scaleXYZ rx ry rz positionXYZ = s
         \<and> SetShaderColor s r g b a = s
         \<and> SetShaderTexture s textureTag = Inr s
         \<and> SetTextureUVScale s u v = s"
  using assms
  by (simp add: SetTransformations_def SetShaderColor_def SetShaderTexture_def
        SetTextureUVScale_def)

theorem null_shader_manager_noop_witness:
  "m_pShaderManager (SceneManager None demo_world) = None
   \<and> SetTransformations glm_exact (SceneManager None demo_world)
         (Vec3 2 1 1) 0 90 0 (Vec3 1 0 0) =
       SceneManager None demo_world
   \<and> SetShaderColor (SceneManager None demo_world) 1 0 0 1 = SceneManager None demo_world
   \<and> SetShaderTexture (SceneManager None demo_world) ''Wood'' = Inr (SceneManager None demo_world)
   \<and> SetTextureUVScale (SceneManager None demo_world) 2 3 = SceneManager None demo_world"
proof -
  have h: "m_pShaderManager (SceneManager None demo_world) = None"
    by (simp add: SceneManager_def)
  show ?thesis
    using h null_shader_manager_noop [OF h, of glm_exact] by simp
qed

subsection \<open>Lookups in the texture registry\<close>

declare FindTextureSlot_loop.simps [simp del]
declare FindTextureID_loop.simps [simp del]

lemma FindTextureSlot_loop_found:
  "FindTextureSlot_loop s tg r index True = Inr r"
  by (simp add: FindTextureSlot_loop.simps)

lemma FindTextureID_loop_found:
  "FindTextureID_loop s tg r index True = Inr r"
  by (simp add: FindTextureID_loop.simps)

lemma FindTextureSlot_loop_miss:
  assumes "m_loadedTextures s \<le> length (m_textureIDs s)"
    and "\<forall>j. index \<le> j \<and> j < m_loadedTextures s \<longrightarrow> tag (m_textureIDs s ! j) \<noteq> tg"
  shows "FindTextureSlot_loop s tg r index False = Inr r"
  using assms
proof (induction "m_loadedTextures s - index" arbitrary: index)
  case 0
  then show ?case by (simp add: FindTextureSlot_loop.simps)
next
  case (Suc n)
  then have "index < m_loadedTextures s" by simp
  moreover have "FindTextureSlot_loop s tg r (index + 1) False = Inr r"
    using Suc by auto
  ultimately show ?case
    using Suc.prems
    by (subst FindTextureSlot_loop.simps) (simp add: textureIDs_at_def)
qed

lemma FindTextureSlot_loop_hit:
  assumes "m_loadedTextures s \<le> length (m_textureIDs s)"
    and "index \<le> i" and "i < m_loadedTextures s"
    and "tag (m_textureIDs s ! i) = tg"
    and "\<forall>j. index \<le> j \<and> j < i \<longrightarrow> tag (m_textureIDs s ! j) \<noteq> tg"
  shows "FindTextureSlot_loop s tg r index False = Inr (int i)"
  using assms
proof (induction "i - index" arbitrary: index r)
  case 0
  then have "index = i" by simp
  with 0 show ?case
    by (subst FindTextureSlot_loop.simps) (simp add: textureIDs_at_def FindTextureSlot_loop_found)
next
  case (Suc n)
  then have lt: "index < i" by simp
  have "FindTextureSlot_loop s tg r (index + 1) False = Inr (int i)"
    using Suc by auto
  then show ?case
    using Suc.prems lt
    by (subst FindTextureSlot_loop.simps) (simp add: textureIDs_at_def)
qed

lemma FindTextureID_loop_miss:
  assumes "m_loadedTextures s \<le> length (m_textureIDs s)"
    and "\<forall>j. index \<le> j \<and> j < m_loadedTextures s \<longrightarrow> tag (m_textureIDs s ! j) \<noteq> tg"
  shows "FindTextureID_loop s tg r index False = Inr r"
  using assms
proof (induction "m_loadedTextures s - index" arbitrary: index)
  case 0
  then show ?case by (simp add: FindTextureID_loop.simps)
next
  case (Suc n)
  then have "index < m_loadedTextures s" by simp
  moreover have "FindTextureID_loop s tg r (index + 1) False = Inr r"
    using Suc by auto
  ultimately show ?case
    using Suc.prems
    by (subst FindTextureID_loop.simps) (simp add: textureIDs_at_def)
qed

lemma FindTextureID_loop_hit:
  assumes "m_loadedTextures s \<le> length (m_textureIDs s)"
    and "index \<le> i" and "i < m_loadedTextures s"
    and "tag (m_textureIDs s ! i) = tg"
    and "\<forall>j. index \<le> j \<and> j < i \<longrightarrow> tag (m_textureIDs s ! j) \<noteq> tg"
  shows "FindTextureID_loop s tg r index False = Inr (sint (ID (m_textureIDs s ! i)))"
  using assms
proof (induction "i - index" arbitrary: index r)
  case 0
  then have "index = i" by simp
  with 0 show ?case
    by (subst FindTextureID_loop.simps) (simp add: textureIDs_at_def FindTextureID_loop_found)
next
  case (Suc n)
  then have lt: "index < i" by simp
  have "FindTextureID_loop s tg r (index + 1) False = Inr (sint (ID (m_textureIDs s ! i)))"
    using Suc by auto
  then show ?case
    using Suc.prems lt
    by (subst FindTextureID_loop.simps) (simp add: textureIDs_at_def)
qed

lemma FindTextureSlot_miss:
  "registry_ok s \<Longrightarrow> \<forall>j<m_loadedTextures s. tag (m_textureIDs s ! j) \<noteq> tg \<Longrightarrow>
   FindTextureSlot s tg = Inr (- 1)"
  unfolding FindTextureSlot_def
  by (rule FindTextureSlot_loop_miss) (simp_all add: registry_ok_def)

lemma FindTextureSlot_hit:
  "registry_ok s \<Longrightarrow> i < m_loadedTextures s \<Longrightarrow> tag (m_textureIDs s ! i) = tg \<Longrightarrow>
   \<forall>j<i. tag (m_textureIDs s ! j) \<noteq> tg \<Longrightarrow> FindTextureSlot s tg = Inr (int i)"
  unfolding FindTextureSlot_def
  by (rule FindTextureSlot_loop_hit) (simp_all add: registry_ok_def)

lemma FindTextureID_miss:
  "registry_ok s \<Longrightarrow> \<forall>j<m_loadedTextures s. tag (m_textureIDs s ! j) \<noteq> tg \<Longrightarrow>
   FindTextureID s tg = Inr (- 1)"
  unfolding FindTextureID_def
  by (rule FindTextureID_loop_miss) (simp_all add: registry_ok_def)

lemma FindTextureID_hit:
  "registry_ok s \<Longrightarrow> i < m_loadedTextures s \<Longrightarrow> tag (m_textureIDs s ! i) = tg \<Longrightarrow>
   \<forall>j<i. tag (m_textureIDs s ! j) \<noteq> tg \<Longrightarrow>
   FindTextureID s tg = Inr (sint (ID (m_textureIDs s ! i)))"
  unfolding FindTextureID_def
  by (rule FindTextureID_loop_hit) (simp_all add: registry_ok_def)

subsection \<open>Lookups in the material table\<close>

declare FindMaterial_loop.simps [simp del]

lemma FindMaterial_loop_miss:
  assumes "\<forall>j. index \<le> j \<and> j < length ms \<longrightarrow> mtag (ms ! j) \<noteq> tg"
  shows "FindMaterial_loop ms tg index False material = material"
  using assms
proof (induction "length ms - index" arbitrary: index)
  case 0
  then show ?case by (simp add: FindMaterial_loop.simps)
next
  case (Suc n)
  then have "index < length ms" by simp
  moreover have "FindMaterial_loop ms tg (index + 1) False material = material"
    using Suc by auto
  ultimately show ?case
    using Suc.prems by (subst FindMaterial_loop.simps) simp
qed

text \<open>What \<^const>\<open>FindMaterial\<close> and \<^const>\<open>SetShaderMaterial\<close> do on an empty table
  and for a tag that a preset carries: the first preset with the tag is the one copied
  and sent.\<close>

lemma FindMaterial_loop_hit:
  assumes "index \<le> i" and "i < length ms" and "mtag (ms ! i) = tg"
    and "\<forall>j. index \<le> j \<and> j < i \<longrightarrow> mtag (ms ! j) \<noteq> tg"
  shows "FindMaterial_loop ms tg index False material =
           material\<lparr>ambientColor := ambientColor (ms ! i),
                     ambientStrength := ambientStrength (ms ! i),
                     diffuseColor := diffuseColor (ms ! i),
                     specularColor := specularColor (ms ! i),
                     shininess := shininess (ms ! i)\<rparr>"
  using assms
proof (induction "i - index" arbitrary: index)
  case 0
  then have "index = i" by simp
  with 0 show ?case
    by (subst FindMaterial_loop.simps) (simp add: FindMaterial_loop.simps [of _ _ _ True])
next
  case (Suc n)
  then have lt: "index < i" by simp
  have "FindMaterial_loop ms tg (index + 1) False material =
           material\<lparr>ambientColor := ambientColor (ms ! i),
                     ambientStrength := ambientStrength (ms ! i),
                     diffuseColor := diffuseColor (ms ! i),
                     specularColor := specularColor (ms ! i),
                     shininess := shininess (ms ! i)\<rparr>"
    using Suc by auto
  then show ?case
    using Suc.prems lt by (subst FindMaterial_loop.simps) simp
qed

lemma FindMaterial_empty:
  "m_objectMaterials s = [] \<Longrightarrow> FindMaterial s tg material = (False, material)"
  by (simp add: FindMaterial_def)

lemma FindMaterial_first_match:
  assumes "i < length (m_objectMaterials s)" and "mtag (m_objectMaterials s ! i) = tg"
    and "\<forall>j<i. mtag (m_objectMaterials s ! j) \<noteq> tg"
  shows "FindMaterial s tg material =
           (True, material\<lparr>ambientColor := ambientColor (m_objectMaterials s ! i),
                            ambientStrength := ambientStrength (m_objectMaterials s ! i),
                            diffuseColor := diffuseColor (m_objectMaterials s ! i),
                            specularColor := specularColor (m_objectMaterials s ! i),
                            shininess := shininess (m_objectMaterials s ! i)\<rparr>)"
proof -
  have "m_objectMaterials s \<noteq> []" using assms(1) by (cases "m_objectMaterials s") simp_all
  moreover have "FindMaterial_loop (m_objectMaterials s) tg 0 False material =
           material\<lparr>ambientColor := ambientColor (m_objectMaterials s ! i),
                     ambientStrength := ambientStrength (m_objectMaterials s ! i),
                     diffuseColor := diffuseColor (m_objectMaterials s ! i),
                     specularColor := specularColor (m_objectMaterials s ! i),
                     shininess := shininess (m_objectMaterials s ! i)\<rparr>"
    using assms by (intro FindMaterial_loop_hit) simp_all
  ultimately show ?thesis
    by (simp add: FindMaterial_def)
qed

lemma SetShaderMaterial_empty:
  "m_objectMaterials s = [] \<Longrightarrow> SetShaderMaterial s tg uninitialised = Inr s"
  by (simp add: SetShaderMaterial_def)

lemma SetShaderMaterial_first_match:
  assumes "m_pShaderManager s = Some sh"
    and "i < length (m_objectMaterials s)" and "mtag (m_objectMaterials s ! i) = tg"
    and "\<forall>j<i. mtag (m_objectMaterials s ! j) \<noteq> tg"
  shows "SetShaderMaterial s tg uninitialised =
           Inr (s\<lparr>m_pShaderManager := Some (sh @
             [setVec3Value ''material.ambientColor'' (ambientColor (m_objectMaterials s ! i)),
              setFloatValue ''material.ambientStrength'' (ambientStrength (m_objectMaterials s ! i)),
              setVec3Value ''material.diffuseColor'' (diffuseColor (m_objectMaterials s ! i)),
              setVec3Value ''material.specularColor'' (specularColor (m_objectMaterials s ! i)),
              setFloatValue ''material.shininess'' (shininess (m_objectMaterials s ! i))])\<rparr>)"
proof -
  have "0 < length (m_objectMaterials s)" using assms(2) by linarith
  then show ?thesis
    using assms(1) FindMaterial_first_match [OF assms(2,3,4), of uninitialised]
    by (simp add: SetShaderMaterial_def shader_send_def)
qed

text \<open>On a table that is not empty, a tag that no preset carries still makes
  \<^const>\<open>FindMaterial\<close> return \<^verbatim>\<open>true\<close>: the last statement is
  \<^verbatim>\<open>return(true)\<close>, whatever \<^verbatim>\<open>bFound\<close> holds. The caller's variable is
  left as it was.\<close>

lemma FindMaterial_unmatched:
  assumes "m_objectMaterials s \<noteq> []" and "\<forall>m \<in> set (m_objectMaterials s). mtag m \<noteq> tg"
  shows "FindMaterial s tg material = (True, material)"
  using assms by (simp add: FindMaterial_def FindMaterial_loop_miss)

text \<open>
  C2, at the input where the code departs from it. After
  \<^const>\<open>DefineObjectMaterials\<close> the table holds Paper, Wood, Plastic and Metal. Looking
  up the tag Glass, which no preset carries, returns \<^verbatim>\<open>true\<close> (found) and not
  \<^verbatim>\<open>false\<close>, and the caller's material is whatever it was before the call.
\<close>

theorem FindMaterial_absent_tag:
  "FindMaterial (DefineObjectMaterials (SceneManager None demo_world)) ''Glass'' material =
     (True, material)"
  by (rule FindMaterial_unmatched)
     (simp_all add: DefineObjectMaterials_def SceneManager_def paperMaterial_def
        woodMaterial_def plasticMaterial_def metalMaterial_def)

text \<open>
  C3, at the input where the code departs from it. With the same table and a shader
  manager attached, \<^const>\<open>SetShaderMaterial\<close> for the undefined tag Glass is not a
  no-op: it sends all five material uniforms, filled from the local variable that was
  never initialised.
\<close>

theorem SetShaderMaterial_absent_tag:
  "SetShaderMaterial (DefineObjectMaterials (SceneManager (Some []) demo_world)) ''Glass''
       uninitialised =
     Inr ((DefineObjectMaterials (SceneManager (Some []) demo_world))
            \<lparr>m_pShaderManager := Some
               [setVec3Value ''material.ambientColor'' (ambientColor uninitialised),
                setFloatValue ''material.ambientStrength'' (ambientStrength uninitialised),
                setVec3Value ''material.diffuseColor'' (diffuseColor uninitialised),
                setVec3Value ''material.specularColor'' (specularColor uninitialised),
                setFloatValue ''material.shininess'' (shininess uninitialised)]\<rparr>)"
proof -
  let ?s = "DefineObjectMaterials (SceneManager (Some []) demo_world)"
  have "FindMaterial ?s ''Glass'' uninitialised = (True, uninitialised)"
    by (rule FindMaterial_unmatched)
       (simp_all add: DefineObjectMaterials_def SceneManager_def paperMaterial_def
          woodMaterial_def plasticMaterial_def metalMaterial_def)
  moreover have "m_objectMaterials ?s \<noteq> []" "m_pShaderManager ?s = Some []"
    by (simp_all add: DefineObjectMaterials_def SceneManager_def)
  ultimately show ?thesis
    by (simp add: SetShaderMaterial_def shader_send_def)
qed

subsection \<open>Loading textures\<close>

declare BindGLTextures_loop.simps [simp del]
declare DestroyGLTextures_loop.simps [simp del]

text \<open>The OpenGL calls leave the members of the scene manager alone.\<close>

lemma gl_issue_frame [simp]:
  "m_textureIDs (gl_issue c s) = m_textureIDs s"
  "m_loadedTextures (gl_issue c s) = m_loadedTextures s"
  "m_pShaderManager (gl_issue c s) = m_pShaderManager s"
  "m_objectMaterials (gl_issue c s) = m_objectMaterials s"
  "stbi_files (gl_issue c s) = stbi_files s"
  "gl_names (gl_issue c s) = gl_names s"
  "gl_generated (gl_issue c s) = gl_generated s"
  by (simp_all add: gl_issue_def)

lemma gl_BindTexture_frame [simp]:
  "m_textureIDs (gl_BindTexture n s) = m_textureIDs s"
  "m_loadedTextures (gl_BindTexture n s) = m_loadedTextures s"
  "m_pShaderManager (gl_BindTexture n s) = m_pShaderManager s"
  "m_objectMaterials (gl_BindTexture n s) = m_objectMaterials s"
  "stbi_files (gl_BindTexture n s) = stbi_files s"
  "gl_names (gl_BindTexture n s) = gl_names s"
  "gl_generated (gl_BindTexture n s) = gl_generated s"
  by (simp_all add: gl_BindTexture_def)

lemma gl_ActiveTexture_frame [simp]:
  "m_textureIDs (gl_ActiveTexture n s) = m_textureIDs s"
  "m_loadedTextures (gl_ActiveTexture n s) = m_loadedTextures s"
  "m_pShaderManager (gl_ActiveTexture n s) = m_pShaderManager s"
  "m_objectMaterials (gl_ActiveTexture n s) = m_objectMaterials s"
  "stbi_files (gl_ActiveTexture n s) = stbi_files s"
  "gl_names (gl_ActiveTexture n s) = gl_names s"
  "gl_generated (gl_ActiveTexture n s) = gl_generated s"
  by (simp_all add: gl_ActiveTexture_def)

lemma gl_GenTextures_frame [simp]:
  "fst (gl_GenTextures s) = gl_names s (gl_generated s)"
  "m_textureIDs (snd (gl_GenTextures s)) = m_textureIDs s"
  "m_loadedTextures (snd (gl_GenTextures s)) = m_loadedTextures s"
  "m_pShaderManager (snd (gl_GenTextures s)) = m_pShaderManager s"
  "m_objectMaterials (snd (gl_GenTextures s)) = m_objectMaterials s"
  "stbi_files (snd (gl_GenTextures s)) = stbi_files s"
  "gl_names (snd (gl_GenTextures s)) = gl_names s"
  "gl_generated (snd (gl_GenTextures s)) = gl_generated s + 1"
  by (simp_all add: gl_GenTextures_def Let_def)

lemma CreateGLTexture_registers:
  assumes "stbi_files s filename = Some img"
    and "colorChannels img = 3 \<or> colorChannels img = 4"
    and "m_loadedTextures s < length (m_textureIDs s)"
  shows "\<exists>s'. CreateGLTexture s filename tg = Inr (True, s')
           \<and> m_textureIDs s' =
               (m_textureIDs s)[m_loadedTextures s := \<lparr>tag = tg, ID = gl_names s (gl_generated s)\<rparr>]
           \<and> m_loadedTextures s' = m_loadedTextures s + 1
           \<and> stbi_files s' = stbi_files s
           \<and> gl_names s' = gl_names s
           \<and> gl_generated s' = gl_generated s + 1
           \<and> m_pShaderManager s' = m_pShaderManager s
           \<and> m_objectMaterials s' = m_objectMaterials s"
  using assms
  by (simp add: CreateGLTexture_def Let_def split_beta textureIDs_set_def)

lemma CreateGLTexture_overflows:
  assumes "stbi_files s filename = Some img"
    and "colorChannels img = 3 \<or> colorChannels img = 4"
    and "length (m_textureIDs s) \<le> m_loadedTextures s"
  shows "CreateGLTexture s filename tg = Inl (ArrayIndexOutOfBounds (m_loadedTextures s))"
  using assms
  by (simp add: CreateGLTexture_def Let_def split_beta textureIDs_set_def)

lemma CreateGLTexture_fails:
  assumes "\<not> loadable s filename"
  shows "\<exists>s'. CreateGLTexture s filename tg = Inr (False, s')
           \<and> m_textureIDs s' = m_textureIDs s
           \<and> m_loadedTextures s' = m_loadedTextures s
           \<and> stbi_files s' = stbi_files s
           \<and> gl_names s' = gl_names s
           \<and> m_pShaderManager s' = m_pShaderManager s
           \<and> m_objectMaterials s' = m_objectMaterials s"
proof (cases "stbi_files s filename")
  case None
  then show ?thesis
    by (simp add: CreateGLTexture_def)
next
  case (Some img)
  with assms have "\<not> (colorChannels img = 3 \<or> colorChannels img = 4)"
    by (simp add: loadable_def)
  with Some show ?thesis
    by (simp add: CreateGLTexture_def Let_def split_beta)
qed

text \<open>The registered entries are the first \<^verbatim>\<open>m_loadedTextures\<close> entries of the
  array.\<close>

lemma registered_length:
  "m_loadedTextures s \<le> length (m_textureIDs s) \<Longrightarrow> length (registered s) = m_loadedTextures s"
  by (simp add: registered_def)

lemma registered_nth:
  "i < m_loadedTextures s \<Longrightarrow> registered s ! i = m_textureIDs s ! i"
  by (simp add: registered_def)

lemma registered_append:
  assumes "m_loadedTextures s < length (m_textureIDs s)"
    and "m_textureIDs s' = (m_textureIDs s)[m_loadedTextures s := e]"
    and "m_loadedTextures s' = m_loadedTextures s + 1"
  shows "registered s' = registered s @ [e]"
  using assms by (simp add: registered_def take_Suc_conv_app_nth)

subsection \<open>Binding and tearing down\<close>

text \<open>The binding loop started at index \<open>i\<close>: units \<open>i\<close> up to the counter get the
  stored handles, every other unit keeps its texture, and the calls are one
  \<^verbatim>\<open>glActiveTexture\<close> and one \<^verbatim>\<open>glBindTexture\<close> per entry.\<close>

lemma BindGLTextures_loop_binds:
  assumes "m_loadedTextures s \<le> length (m_textureIDs s)"
  shows "\<exists>s'. BindGLTextures_loop s i = Inr s'
           \<and> m_textureIDs s' = m_textureIDs s
           \<and> m_loadedTextures s' = m_loadedTextures s
           \<and> m_pShaderManager s' = m_pShaderManager s
           \<and> (\<forall>u. gl_bound_2d s' u =
                 (if i \<le> u \<and> u < m_loadedTextures s then ID (m_textureIDs s ! u)
                  else gl_bound_2d s u))
           \<and> gl_calls s' = gl_calls s @
               concat (map (\<lambda>k. [glActiveTexture k, glBindTexture (ID (m_textureIDs s ! k))])
                 [i..<m_loadedTextures s])"
  using assms
proof (induction "m_loadedTextures s - i" arbitrary: s i)
  case 0
  then show ?case by (auto simp: BindGLTextures_loop.simps)
next
  case (Suc n)
  let ?s1 = "gl_BindTexture (ID (m_textureIDs s ! i)) (gl_ActiveTexture i s)"
  from Suc have lt: "i < m_loadedTextures s" by simp
  have s1: "m_textureIDs ?s1 = m_textureIDs s" "m_loadedTextures ?s1 = m_loadedTextures s"
    "m_pShaderManager ?s1 = m_pShaderManager s"
    "gl_bound_2d ?s1 = (gl_bound_2d s)(i := ID (m_textureIDs s ! i))"
    "gl_calls ?s1 = gl_calls s @ [glActiveTexture i, glBindTexture (ID (m_textureIDs s ! i))]"
    by (simp_all add: gl_BindTexture_def gl_ActiveTexture_def)
  have "n = m_loadedTextures ?s1 - (i + 1)" "m_loadedTextures ?s1 \<le> length (m_textureIDs ?s1)"
    using Suc.hyps(2) Suc.prems by (simp_all add: s1)
  from Suc.hyps(1) [OF this] obtain s' where s':
    "BindGLTextures_loop ?s1 (i + 1) = Inr s'"
    "m_textureIDs s' = m_textureIDs s" "m_loadedTextures s' = m_loadedTextures s"
    "m_pShaderManager s' = m_pShaderManager s"
    "\<forall>u. gl_bound_2d s' u =
       (if i + 1 \<le> u \<and> u < m_loadedTextures s then ID (m_textureIDs s ! u)
        else ((gl_bound_2d s)(i := ID (m_textureIDs s ! i))) u)"
    "gl_calls s' = (gl_calls s @ [glActiveTexture i, glBindTexture (ID (m_textureIDs s ! i))]) @
       concat (map (\<lambda>k. [glActiveTexture k, glBindTexture (ID (m_textureIDs s ! k))])
         [i + 1..<m_loadedTextures s])"
    by (auto simp: s1)
  have run: "BindGLTextures_loop s i = Inr s'"
    using lt Suc.prems s'(1)
    by (subst BindGLTextures_loop.simps) (simp add: textureIDs_at_def)
  have bound: "\<forall>u. gl_bound_2d s' u =
       (if i \<le> u \<and> u < m_loadedTextures s then ID (m_textureIDs s ! u) else gl_bound_2d s u)"
    using s'(5) lt by auto
  have calls: "gl_calls s' = gl_calls s @
       concat (map (\<lambda>k. [glActiveTexture k, glBindTexture (ID (m_textureIDs s ! k))])
         [i..<m_loadedTextures s])"
    using s'(6) lt by (simp add: upt_conv_Cons)
  show ?case
    using run s'(2,3,4) bound calls by blast
qed

text \<open>The teardown loop started at index \<open>i\<close>: one \<^verbatim>\<open>glGenTextures\<close> per
  entry and no other call; each stored handle is overwritten with the new name.\<close>

lemma DestroyGLTextures_loop_generates:
  assumes "m_loadedTextures s \<le> length (m_textureIDs s)"
  shows "\<exists>s'. DestroyGLTextures_loop s i = Inr s'
           \<and> m_loadedTextures s' = m_loadedTextures s
           \<and> length (m_textureIDs s') = length (m_textureIDs s)
           \<and> gl_names s' = gl_names s
           \<and> gl_generated s' = gl_generated s + (m_loadedTextures s - i)
           \<and> gl_calls s' = gl_calls s @
               map (\<lambda>k. glGenTextures (gl_names s (gl_generated s + k)))
                 [0..<m_loadedTextures s - i]
           \<and> (\<forall>u<length (m_textureIDs s). m_textureIDs s' ! u =
                 (if i \<le> u \<and> u < m_loadedTextures s
                  then (m_textureIDs s ! u)\<lparr>ID := gl_names s (gl_generated s + (u - i))\<rparr>
                  else m_textureIDs s ! u))"
  using assms
proof (induction "m_loadedTextures s - i" arbitrary: s i)
  case 0
  then show ?case by (auto simp: DestroyGLTextures_loop.simps)
next
  case (Suc n)
  let ?name = "gl_names s (gl_generated s)"
  let ?s2 = "(snd (gl_GenTextures s))
               \<lparr>m_textureIDs := (m_textureIDs s)[i := (m_textureIDs s ! i)\<lparr>ID := ?name\<rparr>]\<rparr>"
  from Suc have lt: "i < m_loadedTextures s" and diff: "m_loadedTextures s - i = Suc n" by simp_all
  have s2: "m_textureIDs ?s2 = (m_textureIDs s)[i := (m_textureIDs s ! i)\<lparr>ID := ?name\<rparr>]"
    "m_loadedTextures ?s2 = m_loadedTextures s"
    "gl_names ?s2 = gl_names s" "gl_generated ?s2 = gl_generated s + 1"
    "gl_calls ?s2 = gl_calls s @ [glGenTextures ?name]"
    by (simp_all add: gl_GenTextures_def Let_def)
  have "n = m_loadedTextures ?s2 - (i + 1)" "m_loadedTextures ?s2 \<le> length (m_textureIDs ?s2)"
    using Suc.hyps(2) Suc.prems by (simp_all add: s2)
  from Suc.hyps(1) [OF this] obtain s' where s':
    "DestroyGLTextures_loop ?s2 (i + 1) = Inr s'"
    "m_loadedTextures s' = m_loadedTextures s"
    "length (m_textureIDs s') = length (m_textureIDs s)"
    "gl_names s' = gl_names s"
    "gl_generated s' = gl_generated s + 1 + (m_loadedTextures s - (i + 1))"
    "gl_calls s' = (gl_calls s @ [glGenTextures ?name]) @
       map (\<lambda>k. glGenTextures (gl_names s (gl_generated s + 1 + k)))
         [0..<m_loadedTextures s - (i + 1)]"
    "\<forall>u<length (m_textureIDs s). m_textureIDs s' ! u =
       (if i + 1 \<le> u \<and> u < m_loadedTextures s
        then ((m_textureIDs s)[i := (m_textureIDs s ! i)\<lparr>ID := ?name\<rparr>] ! u)
               \<lparr>ID := gl_names s (gl_generated s + 1 + (u - (i + 1)))\<rparr>
        else (m_textureIDs s)[i := (m_textureIDs s ! i)\<lparr>ID := ?name\<rparr>] ! u)"
    by (auto simp: s2)
  have run: "DestroyGLTextures_loop s i = Inr s'"
    using lt Suc.prems s'(1)
    by (subst DestroyGLTextures_loop.simps)
       (simp add: textureIDs_at_def textureIDs_set_def split_beta)
  have gen: "gl_generated s' = gl_generated s + (m_loadedTextures s - i)"
    using s'(5) lt by simp
  have "map (\<lambda>k. glGenTextures (gl_names s (gl_generated s + k))) [0..<Suc n] =
        glGenTextures ?name #
        map (\<lambda>k. glGenTextures (gl_names s (gl_generated s + 1 + k))) [0..<n]"
    by (simp add: map_upt_Suc del: upt_Suc)
  moreover have "m_loadedTextures s - (i + 1) = n" using diff by simp
  ultimately have calls: "gl_calls s' = gl_calls s @
       map (\<lambda>k. glGenTextures (gl_names s (gl_generated s + k))) [0..<m_loadedTextures s - i]"
    using s'(6) diff by simp
  have ids: "\<forall>u<length (m_textureIDs s). m_textureIDs s' ! u =
       (if i \<le> u \<and> u < m_loadedTextures s
        then (m_textureIDs s ! u)\<lparr>ID := gl_names s (gl_generated s + (u - i))\<rparr>
        else m_textureIDs s ! u)"
  proof (intro allI impI)
    fix u assume u: "u < length (m_textureIDs s)"
    show "m_textureIDs s' ! u =
       (if i \<le> u \<and> u < m_loadedTextures s
        then (m_textureIDs s ! u)\<lparr>ID := gl_names s (gl_generated s + (u - i))\<rparr>
        else m_textureIDs s ! u)"
    proof (cases "u = i")
      case True
      then show ?thesis using s'(7) u lt by simp
    next
      case False
      then show ?thesis using s'(7) u lt by (auto simp: Suc_diff_Suc)
    qed
  qed
  show ?case
    using run s'(2,3,4) gen calls ids by blast
qed

subsection \<open>Runs of loads\<close>

lemma loadable_cong: "stbi_files s' = stbi_files s \<Longrightarrow> loadable s' f = loadable s f"
  by (simp add: loadable_def)

lemma CreateGLTexture_loadable:
  assumes "loadable s filename" and "m_loadedTextures s < length (m_textureIDs s)"
  shows "\<exists>s'. CreateGLTexture s filename tg = Inr (True, s')
           \<and> length (m_textureIDs s') = length (m_textureIDs s)
           \<and> m_loadedTextures s' = m_loadedTextures s + 1
           \<and> registered s' = registered s @ [\<lparr>tag = tg, ID = gl_names s (gl_generated s)\<rparr>]
           \<and> stbi_files s' = stbi_files s
           \<and> gl_names s' = gl_names s
           \<and> gl_generated s' = gl_generated s + 1
           \<and> m_pShaderManager s' = m_pShaderManager s
           \<and> m_objectMaterials s' = m_objectMaterials s"
proof -
  from assms(1) obtain img where img: "stbi_files s filename = Some img"
    "colorChannels img = 3 \<or> colorChannels img = 4"
    by (auto simp: loadable_def split: option.splits)
  from CreateGLTexture_registers [OF img assms(2), of tg] obtain s' where s':
    "CreateGLTexture s filename tg = Inr (True, s')"
    "m_textureIDs s' =
       (m_textureIDs s)[m_loadedTextures s := \<lparr>tag = tg, ID = gl_names s (gl_generated s)\<rparr>]"
    "m_loadedTextures s' = m_loadedTextures s + 1"
    "stbi_files s' = stbi_files s" "gl_names s' = gl_names s"
    "gl_generated s' = gl_generated s + 1"
    "m_pShaderManager s' = m_pShaderManager s" "m_objectMaterials s' = m_objectMaterials s"
    by blast
  have "registered s' = registered s @ [\<lparr>tag = tg, ID = gl_names s (gl_generated s)\<rparr>]"
    using assms(2) s'(2,3) by (rule registered_append)
  moreover have "length (m_textureIDs s') = length (m_textureIDs s)"
    by (simp add: s'(2))
  ultimately show ?thesis
    using s' by blast
qed

lemma CreateGLTexture_not_loadable:
  assumes "\<not> loadable s filename"
  shows "\<exists>s'. CreateGLTexture s filename tg = Inr (False, s')
           \<and> length (m_textureIDs s') = length (m_textureIDs s)
           \<and> m_loadedTextures s' = m_loadedTextures s
           \<and> registered s' = registered s
           \<and> stbi_files s' = stbi_files s
           \<and> gl_names s' = gl_names s
           \<and> m_pShaderManager s' = m_pShaderManager s
           \<and> m_objectMaterials s' = m_objectMaterials s"
proof -
  from CreateGLTexture_fails [OF assms, of tg] obtain s' where s':
    "CreateGLTexture s filename tg = Inr (False, s')"
    "m_textureIDs s' = m_textureIDs s" "m_loadedTextures s' = m_loadedTextures s"
    "stbi_files s' = stbi_files s" "gl_names s' = gl_names s"
    "m_pShaderManager s' = m_pShaderManager s" "m_objectMaterials s' = m_objectMaterials s"
    by blast
  have "registered s' = registered s"
    by (simp add: registered_def s'(2,3))
  then show ?thesis
    using s' by auto
qed

lemma CreateGLTextures_run:
  assumes "m_loadedTextures s + length (filter (\<lambda>c. loadable s (fst c)) calls)
             \<le> length (m_textureIDs s)"
  shows "\<exists>s'. CreateGLTextures s calls = Inr (map (\<lambda>c. loadable s (fst c)) calls, s')
           \<and> length (m_textureIDs s') = length (m_textureIDs s)
           \<and> m_loadedTextures s' =
               m_loadedTextures s + length (filter (\<lambda>c. loadable s (fst c)) calls)
           \<and> map tag (registered s') =
               map tag (registered s) @ map snd (filter (\<lambda>c. loadable s (fst c)) calls)
           \<and> stbi_files s' = stbi_files s
           \<and> m_pShaderManager s' = m_pShaderManager s
           \<and> m_objectMaterials s' = m_objectMaterials s"
  using assms
proof (induction calls arbitrary: s)
  case Nil
  then show ?case by simp
next
  case (Cons c rest)
  obtain filename tg where c: "c = (filename, tg)" by (cases c)
  show ?case
  proof (cases "loadable s filename")
    case True
    with Cons.prems c have room: "m_loadedTextures s < length (m_textureIDs s)" by simp
    from CreateGLTexture_loadable [OF True room, of tg] obtain s1 where s1:
      "CreateGLTexture s filename tg = Inr (True, s1)"
      "length (m_textureIDs s1) = length (m_textureIDs s)"
      "m_loadedTextures s1 = m_loadedTextures s + 1"
      "registered s1 = registered s @ [\<lparr>tag = tg, ID = gl_names s (gl_generated s)\<rparr>]"
      "stbi_files s1 = stbi_files s"
      "m_pShaderManager s1 = m_pShaderManager s" "m_objectMaterials s1 = m_objectMaterials s"
      by blast
    have same: "\<And>f. loadable s1 f = loadable s f"
      using s1(5) by (rule loadable_cong)
    have "m_loadedTextures s1 + length (filter (\<lambda>c. loadable s1 (fst c)) rest)
            \<le> length (m_textureIDs s1)"
      using Cons.prems True c by (simp add: s1 same)
    from Cons.IH [OF this] obtain s' where s':
      "CreateGLTextures s1 rest = Inr (map (\<lambda>c. loadable s (fst c)) rest, s')"
      "length (m_textureIDs s') = length (m_textureIDs s)"
      "m_loadedTextures s' =
         m_loadedTextures s + 1 + length (filter (\<lambda>c. loadable s (fst c)) rest)"
      "map tag (registered s') =
         (map tag (registered s) @ [tg]) @ map snd (filter (\<lambda>c. loadable s (fst c)) rest)"
      "stbi_files s' = stbi_files s"
      "m_pShaderManager s' = m_pShaderManager s" "m_objectMaterials s' = m_objectMaterials s"
      by (auto simp: s1 same)
    show ?thesis
      using True c s1(1) s' by simp
  next
    case False
    from CreateGLTexture_not_loadable [OF False, of tg] obtain s1 where s1:
      "CreateGLTexture s filename tg = Inr (False, s1)"
      "length (m_textureIDs s1) = length (m_textureIDs s)"
      "m_loadedTextures s1 = m_loadedTextures s"
      "registered s1 = registered s"
      "stbi_files s1 = stbi_files s"
      "m_pShaderManager s1 = m_pShaderManager s" "m_objectMaterials s1 = m_objectMaterials s"
      by blast
    have same: "\<And>f. loadable s1 f = loadable s f"
      using s1(5) by (rule loadable_cong)
    have "m_loadedTextures s1 + length (filter (\<lambda>c. loadable s1 (fst c)) rest)
            \<le> length (m_textureIDs s1)"
      using Cons.prems False c by (simp add: s1 same)
    from Cons.IH [OF this] obtain s' where s':
      "CreateGLTextures s1 rest = Inr (map (\<lambda>c. loadable s (fst c)) rest, s')"
      "length (m_textureIDs s') = length (m_textureIDs s)"
      "m_loadedTextures s' =
         m_loadedTextures s + length (filter (\<lambda>c. loadable s (fst c)) rest)"
      "map tag (registered s') =
         map tag (registered s) @ map snd (filter (\<lambda>c. loadable s (fst c)) rest)"
      "stbi_files s' = stbi_files s"
      "m_pShaderManager s' = m_pShaderManager s" "m_objectMaterials s' = m_objectMaterials s"
      by (auto simp: s1 same)
    show ?thesis
      using False c s1(1) s' by simp
  qed
qed

subsection \<open>Lookups, in terms of the registered entries\<close>

lemma first_match_exists:
  "x \<in> set xs \<Longrightarrow> \<exists>i<length xs. xs ! i = x \<and> (\<forall>j<i. xs ! j \<noteq> x)"
proof (induction xs)
  case Nil
  then show ?case by simp
next
  case (Cons a xs)
  show ?case
  proof (cases "a = x")
    case True
    then have "0 < length (a # xs) \<and> (a # xs) ! 0 = x \<and> (\<forall>j<0. (a # xs) ! j \<noteq> x)" by simp
    then show ?thesis by blast
  next
    case False
    with Cons obtain i where i: "i < length xs" "xs ! i = x" "\<forall>j<i. xs ! j \<noteq> x" by auto
    have "\<forall>j<Suc i. (a # xs) ! j \<noteq> x"
    proof (intro allI impI)
      fix j assume "j < Suc i"
      then show "(a # xs) ! j \<noteq> x" using False i(3) by (cases j) auto
    qed
    with i(1,2) have "Suc i < length (a # xs) \<and> (a # xs) ! Suc i = x \<and> (\<forall>j<Suc i. (a # xs) ! j \<noteq> x)"
      by simp
    then show ?thesis by blast
  qed
qed

lemma filter_take_nth:
  assumes "k < length xs" and "P (xs ! k)"
  shows "length (filter P (take k xs)) < length (filter P xs)
         \<and> filter P xs ! length (filter P (take k xs)) = xs ! k"
proof -
  have "xs = take k xs @ xs ! k # drop (Suc k) xs"
    using assms(1) by (rule id_take_nth_drop)
  then have "filter P xs = filter P (take k xs @ xs ! k # drop (Suc k) xs)"
    by simp
  then have "filter P xs = filter P (take k xs) @ xs ! k # filter P (drop (Suc k) xs)"
    using assms(2) by simp
  then show ?thesis
    by (simp add: nth_append)
qed

lemma lookup_hit:
  assumes "registry_ok s" and "i < m_loadedTextures s" and "tag (registered s ! i) = tg"
    and "\<forall>j<i. tag (registered s ! j) \<noteq> tg"
  shows "FindTextureSlot s tg = Inr (int i)
         \<and> FindTextureID s tg = Inr (sint (ID (registered s ! i)))"
proof -
  have "tag (m_textureIDs s ! i) = tg"
    using assms(2,3) by (simp add: registered_nth)
  moreover have "\<forall>j<i. tag (m_textureIDs s ! j) \<noteq> tg"
    using assms(2,4) by (simp add: registered_nth)
  ultimately show ?thesis
    using assms(1,2) by (simp add: FindTextureSlot_hit FindTextureID_hit registered_nth)
qed

lemma lookup_miss:
  assumes "registry_ok s" and "tg \<notin> set (map tag (registered s))"
  shows "FindTextureSlot s tg = Inr (- 1) \<and> FindTextureID s tg = Inr (- 1)"
proof -
  have len: "length (registered s) = m_loadedTextures s"
    using assms(1) by (simp add: registered_length registry_ok_def)
  have "\<forall>j<m_loadedTextures s. tag (m_textureIDs s ! j) \<noteq> tg"
  proof (intro allI impI)
    fix j assume j: "j < m_loadedTextures s"
    then have "registered s ! j \<in> set (registered s)" by (simp add: len)
    then have "tag (registered s ! j) \<in> set (map tag (registered s))" by simp
    with assms(2) show "tag (m_textureIDs s ! j) \<noteq> tg"
      using j by (auto simp: registered_nth)
  qed
  then show ?thesis
    using assms(1) by (simp add: FindTextureSlot_miss FindTextureID_miss)
qed

lemma lookup_first:
  assumes "registry_ok s" and "tg \<in> set (map tag (registered s))"
  shows "\<exists>i<m_loadedTextures s. tag (registered s ! i) = tg
           \<and> (\<forall>j<i. tag (registered s ! j) \<noteq> tg)
           \<and> FindTextureSlot s tg = Inr (int i)
           \<and> FindTextureID s tg = Inr (sint (ID (registered s ! i)))"
proof -
  have len: "length (registered s) = m_loadedTextures s"
    using assms(1) by (simp add: registered_length registry_ok_def)
  from first_match_exists [OF assms(2)] obtain i where i:
    "i < length (map tag (registered s))" "map tag (registered s) ! i = tg"
    "\<forall>j<i. map tag (registered s) ! j \<noteq> tg" by blast
  have a: "i < m_loadedTextures s" using i(1) len by simp
  have b: "tag (registered s ! i) = tg" using i(1,2) by simp
  have c: "\<forall>j<i. tag (registered s ! j) \<noteq> tg" using i(1,3) by simp
  from lookup_hit [OF assms(1) a b c] a b c show ?thesis by blast
qed

subsection \<open>The lookup round trip\<close>

lemma demo_loaded_fields:
  "registry_ok demo_loaded"
  "m_loadedTextures demo_loaded = 2"
  "registered demo_loaded = [\<lparr>tag = ''Wood'', ID = 1\<rparr>, \<lparr>tag = ''Glass'', ID = 2\<rparr>]"
  "m_pShaderManager demo_loaded = Some []"
  "gl_calls demo_loaded = []"
  "gl_generated demo_loaded = 2"
  "gl_names demo_loaded = (\<lambda>n. of_nat (n + 1))"
  "stbi_files demo_loaded = demo_files"
  by (simp_all add: demo_loaded_def demo_world_def registry_ok_def registered_def)

text \<open>Loading the two files into a fresh scene manager leads to the registry of
  \<^const>\<open>demo_loaded\<close>.\<close>

lemma demo_loaded_reached:
  "\<exists>s. CreateGLTextures (SceneManager (Some []) demo_world)
          [(''wood.jpg'', ''Wood''), (''glass.png'', ''Glass'')] = Inr ([True, True], s)
       \<and> registered s = registered demo_loaded
       \<and> m_loadedTextures s = m_loadedTextures demo_loaded
       \<and> length (m_textureIDs s) = length (m_textureIDs demo_loaded)
       \<and> gl_generated s = gl_generated demo_loaded
       \<and> m_pShaderManager s = m_pShaderManager demo_loaded"
proof -
  let ?s0 = "SceneManager (Some []) demo_world"
  have s0: "m_loadedTextures ?s0 = 0" "length (m_textureIDs ?s0) = 16" "registered ?s0 = []"
    "stbi_files ?s0 = demo_files" "gl_generated ?s0 = 0"
    "gl_names ?s0 = (\<lambda>n. of_nat (n + 1))" "m_pShaderManager ?s0 = Some []"
    by (simp_all add: SceneManager_def demo_world_def registered_def)
  have ld1: "loadable ?s0 ''wood.jpg''" by (simp add: loadable_def s0 demo_files_def)
  have room1: "m_loadedTextures ?s0 < length (m_textureIDs ?s0)" by (simp add: s0)
  from CreateGLTexture_loadable [OF ld1 room1, of "''Wood''"] obtain s1 where
    r1: "CreateGLTexture ?s0 ''wood.jpg'' ''Wood'' = Inr (True, s1)"
    and l1: "length (m_textureIDs s1) = length (m_textureIDs ?s0)"
    and n1: "m_loadedTextures s1 = m_loadedTextures ?s0 + 1"
    and reg1: "registered s1 = registered ?s0 @ [\<lparr>tag = ''Wood'', ID = gl_names ?s0 (gl_generated ?s0)\<rparr>]"
    and f1: "stbi_files s1 = stbi_files ?s0"
    and nm1: "gl_names s1 = gl_names ?s0"
    and g1: "gl_generated s1 = gl_generated ?s0 + 1"
    and sh1: "m_pShaderManager s1 = m_pShaderManager ?s0"
    by (elim exE conjE) (rule that; assumption)
  have ld2: "loadable s1 ''glass.png''" by (simp add: loadable_def f1 s0 demo_files_def)
  have room2: "m_loadedTextures s1 < length (m_textureIDs s1)" by (simp add: l1 n1 s0)
  from CreateGLTexture_loadable [OF ld2 room2, of "''Glass''"] obtain s2 where
    r2: "CreateGLTexture s1 ''glass.png'' ''Glass'' = Inr (True, s2)"
    and l2: "length (m_textureIDs s2) = length (m_textureIDs s1)"
    and n2: "m_loadedTextures s2 = m_loadedTextures s1 + 1"
    and reg2: "registered s2 = registered s1 @ [\<lparr>tag = ''Glass'', ID = gl_names s1 (gl_generated s1)\<rparr>]"
    and g2: "gl_generated s2 = gl_generated s1 + 1"
    and sh2: "m_pShaderManager s2 = m_pShaderManager s1"
    by (elim exE conjE) (rule that; assumption)
  have a: "CreateGLTextures ?s0 [(''wood.jpg'', ''Wood''), (''glass.png'', ''Glass'')] =
      Inr ([True, True], s2)"
    by (simp add: r1 r2)
  have b: "registered s2 = registered demo_loaded"
    by (simp add: reg2 reg1 nm1 g1 s0 demo_loaded_fields)
  have c: "m_loadedTextures s2 = m_loadedTextures demo_loaded"
    "length (m_textureIDs s2) = length (m_textureIDs demo_loaded)"
    "gl_generated s2 = gl_generated demo_loaded"
    "m_pShaderManager s2 = m_pShaderManager demo_loaded"
    by (simp_all add: n2 n1 l2 l1 g2 g1 sh2 sh1 s0 demo_loaded_fields) (simp add: demo_loaded_def)
  from a b c show ?thesis
    by (intro exI [of _ s2] conjI)
qed

text \<open>
  C6. On a well-formed registry:
  \<^item> a tag that no registered entry carries makes \<^const>\<open>FindTextureID\<close> and
    \<^const>\<open>FindTextureSlot\<close> return the sentinel -1;
  \<^item> a tag whose first registered entry is entry \<open>i\<close> makes \<^const>\<open>FindTextureSlot\<close>
    return \<open>i\<close> and \<^const>\<open>FindTextureID\<close> return the handle stored in entry \<open>i\<close>
    (read as an \<^verbatim>\<open>int\<close>), whatever later entries carry the same tag;
  \<^item> round trip: after a successful \<^const>\<open>CreateGLTexture\<close> under a tag that was not
    registered before, the lookups return the handle the driver handed out for this
    load and the index the entry was registered at.
\<close>

theorem texture_lookup_roundtrip:
  assumes "registry_ok s"
  shows "(tg \<notin> set (map tag (registered s)) \<longrightarrow>
            FindTextureID s tg = Inr (- 1) \<and> FindTextureSlot s tg = Inr (- 1))
       \<and> (i < m_loadedTextures s \<and> tag (registered s ! i) = tg
            \<and> (\<forall>j<i. tag (registered s ! j) \<noteq> tg) \<longrightarrow>
            FindTextureID s tg = Inr (sint (ID (registered s ! i)))
            \<and> FindTextureSlot s tg = Inr (int i))
       \<and> (tg \<notin> set (map tag (registered s))
            \<and> CreateGLTexture s filename tg = Inr (True, s') \<longrightarrow>
            registered s' = registered s @ [\<lparr>tag = tg, ID = gl_names s (gl_generated s)\<rparr>]
            \<and> FindTextureID s' tg = Inr (sint (gl_names s (gl_generated s)))
            \<and> FindTextureSlot s' tg = Inr (int (m_loadedTextures s)))"
proof (intro conjI impI)
  assume "tg \<notin> set (map tag (registered s))"
  from lookup_miss [OF assms this]
  show "FindTextureID s tg = Inr (- 1)" "FindTextureSlot s tg = Inr (- 1)" by simp_all
next
  assume h: "i < m_loadedTextures s \<and> tag (registered s ! i) = tg
             \<and> (\<forall>j<i. tag (registered s ! j) \<noteq> tg)"
  then have "FindTextureSlot s tg = Inr (int i)
             \<and> FindTextureID s tg = Inr (sint (ID (registered s ! i)))"
    using assms by (simp add: lookup_hit)
  then show "FindTextureID s tg = Inr (sint (ID (registered s ! i)))"
    "FindTextureSlot s tg = Inr (int i)" by simp_all
next
  assume h: "tg \<notin> set (map tag (registered s))
             \<and> CreateGLTexture s filename tg = Inr (True, s')"
  let ?e = "\<lparr>tag = tg, ID = gl_names s (gl_generated s)\<rparr>"
  have len: "length (registered s) = m_loadedTextures s"
    using assms by (simp add: registered_length registry_ok_def)
  have ld: "loadable s filename"
  proof (rule ccontr)
    assume "\<not> loadable s filename"
    from CreateGLTexture_not_loadable [OF this, of tg] h show False by auto
  qed
  then obtain img where img: "stbi_files s filename = Some img"
    "colorChannels img = 3 \<or> colorChannels img = 4"
    by (auto simp: loadable_def split: option.splits)
  have room: "m_loadedTextures s < length (m_textureIDs s)"
  proof (rule ccontr)
    assume "\<not> m_loadedTextures s < length (m_textureIDs s)"
    then have "length (m_textureIDs s) \<le> m_loadedTextures s" by simp
    from CreateGLTexture_overflows [OF img this, of tg] h show False by simp
  qed
  from CreateGLTexture_loadable [OF ld room, of tg] h have s':
    "length (m_textureIDs s') = length (m_textureIDs s)"
    "m_loadedTextures s' = m_loadedTextures s + 1"
    "registered s' = registered s @ [?e]"
    by auto
  have ok': "registry_ok s'"
    using assms room by (simp add: registry_ok_def s')
  have a: "m_loadedTextures s < m_loadedTextures s'" by (simp add: s')
  have b: "tag (registered s' ! m_loadedTextures s) = tg"
    by (simp add: s' nth_append len)
  have c: "\<forall>j<m_loadedTextures s. tag (registered s' ! j) \<noteq> tg"
  proof (intro allI impI)
    fix j assume j: "j < m_loadedTextures s"
    then have "registered s ! j \<in> set (registered s)" by (simp add: len)
    then have "tag (registered s ! j) \<in> set (map tag (registered s))" by simp
    with h show "tag (registered s' ! j) \<noteq> tg"
      using j by (auto simp: s' nth_append len)
  qed
  have d: "ID (registered s' ! m_loadedTextures s) = gl_names s (gl_generated s)"
    by (simp add: s' nth_append len)
  from lookup_hit [OF ok' a b c] d
  show "registered s' = registered s @ [?e]"
    "FindTextureID s' tg = Inr (sint (gl_names s (gl_generated s)))"
    "FindTextureSlot s' tg = Inr (int (m_loadedTextures s))"
    by (simp_all add: s')
qed

theorem texture_lookup_roundtrip_witness:
  "registry_ok demo_loaded
   \<and> FindTextureID demo_loaded ''Paper'' = Inr (- 1)
   \<and> FindTextureSlot demo_loaded ''Paper'' = Inr (- 1)
   \<and> FindTextureID demo_loaded ''Glass'' = Inr 2
   \<and> FindTextureSlot demo_loaded ''Glass'' = Inr 1
   \<and> (\<exists>s'. CreateGLTexture demo_loaded ''wood.jpg'' ''Paper'' = Inr (True, s')
         \<and> FindTextureID s' ''Paper'' = Inr 3
         \<and> FindTextureSlot s' ''Paper'' = Inr 2)"
proof -
  have ok: "registry_ok demo_loaded" by (rule demo_loaded_fields)
  have miss: "''Paper'' \<notin> set (map tag (registered demo_loaded))"
    by (simp add: demo_loaded_fields)
  have hit: "1 < m_loadedTextures demo_loaded \<and> tag (registered demo_loaded ! 1) = ''Glass''
             \<and> (\<forall>j<1. tag (registered demo_loaded ! j) \<noteq> ''Glass'')"
    by (simp add: demo_loaded_fields)
  have "loadable demo_loaded ''wood.jpg''"
    by (simp add: loadable_def demo_loaded_fields demo_files_def)
  moreover have "m_loadedTextures demo_loaded < length (m_textureIDs demo_loaded)"
    by (simp add: demo_loaded_def)
  ultimately obtain s' where s': "CreateGLTexture demo_loaded ''wood.jpg'' ''Paper'' = Inr (True, s')"
    using CreateGLTexture_loadable [of demo_loaded "''wood.jpg''" "''Paper''"] by blast
  note t1 = texture_lookup_roundtrip [OF ok, of "''Paper''" 0 "''wood.jpg''" s']
  note t2 = texture_lookup_roundtrip [OF ok, of "''Glass''" 1 "''wood.jpg''" s']
  have a: "FindTextureID demo_loaded ''Paper'' = Inr (- 1)"
    "FindTextureSlot demo_loaded ''Paper'' = Inr (- 1)"
    using t1 miss by simp_all
  have b: "FindTextureID demo_loaded ''Glass'' = Inr 2"
    "FindTextureSlot demo_loaded ''Glass'' = Inr 1"
    using t2 hit by (simp_all add: demo_loaded_fields)
  have c: "FindTextureID s' ''Paper'' = Inr 3" "FindTextureSlot s' ''Paper'' = Inr 2"
    using t1 miss s' by (simp_all add: demo_loaded_fields)
  show ?thesis
    using ok a b c s' by blast
qed

subsection \<open>Selecting a texture for the next draw\<close>

lemma registered_shader_update [simp]:
  "registered (s\<lparr>m_pShaderManager := x\<rparr>) = registered s"
  "registry_ok (s\<lparr>m_pShaderManager := x\<rparr>) = registry_ok s"
  by (simp_all add: registered_def registry_ok_def)

lemma SetShaderTexture_sends:
  assumes "m_pShaderManager s = Some sh" and "FindTextureSlot s textureTag = Inr slot"
  shows "SetShaderTexture s textureTag =
           Inr (s\<lparr>m_pShaderManager :=
                    Some (sh @ [setIntValue ''bUseTexture'' 1,
                                setSampler2DValue ''objectTexture'' slot])\<rparr>)"
proof -
  let ?s1 = "s\<lparr>m_pShaderManager := Some (sh @ [setIntValue g_UseTextureName 1])\<rparr>"
  have "FindTextureSlot_loop ?s1 textureTag r i b = FindTextureSlot_loop s textureTag r i b"
    for r i b
    by (induction s textureTag r i b rule: FindTextureSlot_loop.induct)
       (subst FindTextureSlot_loop.simps, subst (2) FindTextureSlot_loop.simps,
        simp add: textureIDs_at_def)
  then have "FindTextureSlot ?s1 textureTag = Inr slot"
    using assms(2) by (simp add: FindTextureSlot_def)
  then show ?thesis
    using assms(1)
    by (simp add: SetShaderTexture_def shader_send_def g_UseTextureName_def
          g_TextureValueName_def)
qed

text \<open>
  C9. With a shader manager attached and a well-formed registry, empty or not,
  \<^const>\<open>SetShaderTexture\<close> for a tag that is not registered does not fail: it sends
  \<open>bUseTexture = 1\<close> and the sentinel -1 as \<open>objectTexture\<close>, and changes nothing
  else. A following call for a tag whose first registered entry is entry \<open>i\<close> sends
  \<open>bUseTexture = 1\<close> and \<open>objectTexture = i\<close>: nothing of the miss carries over.
\<close>

theorem SetShaderTexture_unresolved_tag:
  assumes "registry_ok s" and "m_pShaderManager s = Some sh"
    and "missing \<notin> set (map tag (registered s))"
  shows "SetShaderTexture s missing =
           Inr (s\<lparr>m_pShaderManager :=
                    Some (sh @ [setIntValue ''bUseTexture'' 1,
                                setSampler2DValue ''objectTexture'' (- 1)])\<rparr>)
       \<and> (i < m_loadedTextures s \<and> tag (registered s ! i) = tg
            \<and> (\<forall>j<i. tag (registered s ! j) \<noteq> tg) \<longrightarrow>
          SetShaderTexture
            (s\<lparr>m_pShaderManager :=
                 Some (sh @ [setIntValue ''bUseTexture'' 1,
                             setSampler2DValue ''objectTexture'' (- 1)])\<rparr>) tg =
            Inr (s\<lparr>m_pShaderManager :=
                     Some (sh @ [setIntValue ''bUseTexture'' 1,
                                 setSampler2DValue ''objectTexture'' (- 1),
                                 setIntValue ''bUseTexture'' 1,
                                 setSampler2DValue ''objectTexture'' (int i)])\<rparr>))"
proof (intro conjI impI)
  let ?s1 = "s\<lparr>m_pShaderManager :=
                 Some (sh @ [setIntValue ''bUseTexture'' 1,
                             setSampler2DValue ''objectTexture'' (- 1)])\<rparr>"
  have "FindTextureSlot s missing = Inr (- 1)"
    using lookup_miss [OF assms(1,3)] by simp
  from SetShaderTexture_sends [OF assms(2) this]
  show "SetShaderTexture s missing = Inr ?s1" .
  assume hit: "i < m_loadedTextures s \<and> tag (registered s ! i) = tg
               \<and> (\<forall>j<i. tag (registered s ! j) \<noteq> tg)"
  have "registry_ok ?s1" "i < m_loadedTextures ?s1" "tag (registered ?s1 ! i) = tg"
    "\<forall>j<i. tag (registered ?s1 ! j) \<noteq> tg"
    using assms(1) hit by simp_all
  from lookup_hit [OF this] have "FindTextureSlot ?s1 tg = Inr (int i)" by simp
  moreover have "m_pShaderManager ?s1 =
      Some (sh @ [setIntValue ''bUseTexture'' 1, setSampler2DValue ''objectTexture'' (- 1)])"
    by simp
  ultimately have "SetShaderTexture ?s1 tg =
      Inr (?s1\<lparr>m_pShaderManager :=
             Some ((sh @ [setIntValue ''bUseTexture'' 1,
                          setSampler2DValue ''objectTexture'' (- 1)]) @
                   [setIntValue ''bUseTexture'' 1,
                    setSampler2DValue ''objectTexture'' (int i)])\<rparr>)"
    by (rule SetShaderTexture_sends [rotated])
  then show "SetShaderTexture ?s1 tg =
      Inr (s\<lparr>m_pShaderManager :=
               Some (sh @ [setIntValue ''bUseTexture'' 1,
                           setSampler2DValue ''objectTexture'' (- 1),
                           setIntValue ''bUseTexture'' 1,
                           setSampler2DValue ''objectTexture'' (int i)])\<rparr>)"
    by simp
qed

text \<open>Two runs: a miss on the empty registry of a fresh scene manager, and a miss
  followed by a hit on the registry of \<^const>\<open>demo_loaded\<close>.\<close>

theorem SetShaderTexture_unresolved_tag_witness:
  "registry_ok (SceneManager (Some []) demo_world)
   \<and> m_pShaderManager (SceneManager (Some []) demo_world) = Some []
   \<and> m_loadedTextures (SceneManager (Some []) demo_world) = 0
   \<and> ''Paper'' \<notin> set (map tag (registered (SceneManager (Some []) demo_world)))
   \<and> SetShaderTexture (SceneManager (Some []) demo_world) ''Paper'' =
       Inr ((SceneManager (Some []) demo_world)\<lparr>m_pShaderManager :=
              Some [setIntValue ''bUseTexture'' 1, setSampler2DValue ''objectTexture'' (- 1)]\<rparr>)
   \<and> registry_ok demo_loaded \<and> m_pShaderManager demo_loaded = Some []
   \<and> ''Paper'' \<notin> set (map tag (registered demo_loaded))
   \<and> 1 < m_loadedTextures demo_loaded \<and> tag (registered demo_loaded ! 1) = ''Glass''
   \<and> tag (registered demo_loaded ! 0) \<noteq> ''Glass''
   \<and> SetShaderTexture demo_loaded ''Paper'' =
       Inr (demo_loaded\<lparr>m_pShaderManager :=
              Some [setIntValue ''bUseTexture'' 1, setSampler2DValue ''objectTexture'' (- 1)]\<rparr>)
   \<and> SetShaderTexture
       (demo_loaded\<lparr>m_pShaderManager :=
          Some [setIntValue ''bUseTexture'' 1, setSampler2DValue ''objectTexture'' (- 1)]\<rparr>)
       ''Glass'' =
       Inr (demo_loaded\<lparr>m_pShaderManager :=
              Some [setIntValue ''bUseTexture'' 1, setSampler2DValue ''objectTexture'' (- 1),
                    setIntValue ''bUseTexture'' 1, setSampler2DValue ''objectTexture'' 1]\<rparr>)"
proof -
  let ?f = "SceneManager (Some []) demo_world"
  have f: "registry_ok ?f" "m_pShaderManager ?f = Some []"
    "''Paper'' \<notin> set (map tag (registered ?f))"
    by (simp_all add: SceneManager_def demo_world_def registry_ok_def registered_def)
  have f0: "m_loadedTextures ?f = 0"
    by (simp add: SceneManager_def)
  have h: "registry_ok demo_loaded" "m_pShaderManager demo_loaded = Some []"
    "''Paper'' \<notin> set (map tag (registered demo_loaded))"
    by (simp_all add: demo_loaded_fields)
  have hit: "1 < m_loadedTextures demo_loaded \<and> tag (registered demo_loaded ! 1) = ''Glass''
             \<and> (\<forall>j<1. tag (registered demo_loaded ! j) \<noteq> ''Glass'')"
    by (simp add: demo_loaded_fields)
  have first: "tag (registered demo_loaded ! 0) \<noteq> ''Glass''"
    by (simp add: demo_loaded_fields)
  note t1 = SetShaderTexture_unresolved_tag [OF f, of 0 "''Paper''"]
  note t2 = SetShaderTexture_unresolved_tag [OF h, of 1 "''Glass''"]
  have a: "SetShaderTexture ?f ''Paper'' =
       Inr (?f\<lparr>m_pShaderManager :=
              Some [setIntValue ''bUseTexture'' 1, setSampler2DValue ''objectTexture'' (- 1)]\<rparr>)"
    using conjunct1 [OF t1] by simp
  have b: "SetShaderTexture demo_loaded ''Paper'' =
       Inr (demo_loaded\<lparr>m_pShaderManager :=
              Some [setIntValue ''bUseTexture'' 1, setSampler2DValue ''objectTexture'' (- 1)]\<rparr>)"
    using conjunct1 [OF t2] by simp
  have c: "SetShaderTexture
       (demo_loaded\<lparr>m_pShaderManager :=
          Some [setIntValue ''bUseTexture'' 1, setSampler2DValue ''objectTexture'' (- 1)]\<rparr>)
       ''Glass'' =
       Inr (demo_loaded\<lparr>m_pShaderManager :=
              Some [setIntValue ''bUseTexture'' 1, setSampler2DValue ''objectTexture'' (- 1),
                    setIntValue ''bUseTexture'' 1, setSampler2DValue ''objectTexture'' 1]\<rparr>)"
    using mp [OF conjunct2 [OF t2] hit] by simp
  have d: "1 < m_loadedTextures demo_loaded" "tag (registered demo_loaded ! 1) = ''Glass''"
    using hit by simp_all
  show ?thesis
    using f f0 a h d first b c by (intro conjI)
qed

subsection \<open>Binding the registered textures\<close>

text \<open>
  C7. On a well-formed registry with N registered textures,
  \<^const>\<open>BindGLTextures\<close> returns normally, and afterwards texture unit \<open>i\<close> has the
  handle of the \<open>i\<close>-th registered entry bound, for every \<open>i < N\<close>. The calls it
  issues are \<^verbatim>\<open>glActiveTexture(GL_TEXTURE0 + i)\<close> followed by
  \<^verbatim>\<open>glBindTexture\<close> of that handle, for \<open>i = 0, ..., N - 1\<close> in this order. The
  registry is left as it was.
\<close>

theorem BindGLTextures_binds_in_order:
  assumes "registry_ok s"
  shows "\<exists>s'. BindGLTextures s = Inr s'
           \<and> (\<forall>i<m_loadedTextures s. gl_bound_2d s' i = ID (registered s ! i))
           \<and> gl_calls s' = gl_calls s @
               concat (map (\<lambda>i. [glActiveTexture i, glBindTexture (ID (registered s ! i))])
                 [0..<m_loadedTextures s])
           \<and> registered s' = registered s"
proof -
  have "m_loadedTextures s \<le> length (m_textureIDs s)"
    using assms by (simp add: registry_ok_def)
  from BindGLTextures_loop_binds [OF this, of 0] obtain s' where s':
    "BindGLTextures_loop s 0 = Inr s'"
    "m_textureIDs s' = m_textureIDs s" "m_loadedTextures s' = m_loadedTextures s"
    "\<forall>u. gl_bound_2d s' u =
       (if 0 \<le> u \<and> u < m_loadedTextures s then ID (m_textureIDs s ! u) else gl_bound_2d s u)"
    "gl_calls s' = gl_calls s @
       concat (map (\<lambda>k. [glActiveTexture k, glBindTexture (ID (m_textureIDs s ! k))])
         [0..<m_loadedTextures s])"
    by blast
  have a: "BindGLTextures s = Inr s'"
    using s'(1) by (simp add: BindGLTextures_def)
  have b: "\<forall>i<m_loadedTextures s. gl_bound_2d s' i = ID (registered s ! i)"
    using s'(4) by (simp add: registered_nth)
  have "map (\<lambda>k. [glActiveTexture k, glBindTexture (ID (m_textureIDs s ! k))])
          [0..<m_loadedTextures s] =
        map (\<lambda>i. [glActiveTexture i, glBindTexture (ID (registered s ! i))])
          [0..<m_loadedTextures s]"
    by (rule map_cong) (simp_all add: registered_nth)
  with s'(5) have c: "gl_calls s' = gl_calls s @
       concat (map (\<lambda>i. [glActiveTexture i, glBindTexture (ID (registered s ! i))])
         [0..<m_loadedTextures s])"
    by simp
  have d: "registered s' = registered s"
    by (simp add: registered_def s'(2,3))
  show ?thesis
    using a b c d by blast
qed

theorem BindGLTextures_binds_in_order_witness:
  "registry_ok demo_loaded
   \<and> (\<exists>s'. BindGLTextures demo_loaded = Inr s'
         \<and> gl_bound_2d s' 0 = 1 \<and> gl_bound_2d s' 1 = 2
         \<and> gl_calls s' =
             [glActiveTexture 0, glBindTexture 1, glActiveTexture 1, glBindTexture 2])"
proof -
  have ok: "registry_ok demo_loaded" by (rule demo_loaded_fields)
  from BindGLTextures_binds_in_order [OF ok] obtain s' where s':
    "BindGLTextures demo_loaded = Inr s'"
    "\<forall>i<m_loadedTextures demo_loaded. gl_bound_2d s' i = ID (registered demo_loaded ! i)"
    "gl_calls s' = gl_calls demo_loaded @
       concat (map (\<lambda>i. [glActiveTexture i, glBindTexture (ID (registered demo_loaded ! i))])
         [0..<m_loadedTextures demo_loaded])"
    by blast
  have "gl_bound_2d s' 0 = 1" "gl_bound_2d s' 1 = 2"
    using s'(2) by (simp_all add: demo_loaded_fields)
  moreover have "[0..<2] = [0, Suc 0]"
    by (simp add: upt_rec)
  then have "gl_calls s' =
      [glActiveTexture 0, glBindTexture 1, glActiveTexture 1, glBindTexture 2]"
    using s'(3) by (simp add: demo_loaded_fields)
  ultimately show ?thesis
    using ok s'(1) by blast
qed

subsection \<open>A failed load among others\<close>

text \<open>A run over two lists of calls is the run over the first followed by the run
  over the second, unless the first one stops.\<close>

lemma CreateGLTextures_append:
  "CreateGLTextures s (xs @ ys) =
     (case CreateGLTextures s xs of
        Inl e \<Rightarrow> Inl e
      | Inr (rs, s') \<Rightarrow>
          (case CreateGLTextures s' ys of
             Inl e \<Rightarrow> Inl e
           | Inr (rs', s'') \<Rightarrow> Inr (rs @ rs', s'')))"
proof (induction xs arbitrary: s)
  case Nil
  show ?case by (simp split: sum.splits prod.splits)
next
  case (Cons c xs)
  obtain filename tg where c: "c = (filename, tg)" by (cases c)
  show ?case
    by (simp add: c Cons.IH split: sum.splits prod.splits)
qed

text \<open>
  C8, as stated, fails once the array is full. On a fresh scene manager, sixteen loads
  of a good file fill the sixteen entries; the next call fails on a one-channel file and
  returns \<^verbatim>\<open>false\<close>; the load after it, of a good four-channel file, does not
  succeed: the run stops at the write to \<^verbatim>\<open>m_textureIDs[16]\<close>.
\<close>

theorem failed_load_beyond_capacity_counterexample:
  "CreateGLTextures (SceneManager None demo_world)
     (replicate 16 (''wood.jpg'', ''Wood'') @
      [(''grey.png'', ''Grey''), (''glass.png'', ''Glass'')]) =
   Inl (ArrayIndexOutOfBounds 16)"
proof -
  let ?s = "SceneManager None demo_world"
  let ?calls = "replicate 16 (''wood.jpg'', ''Wood'')"
  let ?P = "\<lambda>c. loadable ?s (fst c)"
  have s0: "m_loadedTextures ?s = 0" "length (m_textureIDs ?s) = 16"
    "stbi_files ?s = demo_files"
    by (simp_all add: SceneManager_def demo_world_def)
  have wood: "loadable ?s ''wood.jpg''"
    by (simp add: loadable_def s0 demo_files_def)
  have "m_loadedTextures ?s + length (filter ?P ?calls) \<le> length (m_textureIDs ?s)"
    by (simp add: s0 wood)
  from CreateGLTextures_run [OF this] obtain s where
    run: "CreateGLTextures ?s ?calls = Inr (map ?P ?calls, s)"
    and l: "length (m_textureIDs s) = length (m_textureIDs ?s)"
    and n: "m_loadedTextures s = m_loadedTextures ?s + length (filter ?P ?calls)"
    and files: "stbi_files s = stbi_files ?s"
    by (elim exE conjE) (rule that; assumption)
  have full: "m_loadedTextures s = 16" "length (m_textureIDs s) = 16"
    using l n by (simp_all add: s0 wood)
  have "\<not> loadable s ''grey.png''"
    by (simp add: loadable_def files s0 demo_files_def)
  from CreateGLTexture_not_loadable [OF this, of "''Grey''"] obtain s1 where
    grey: "CreateGLTexture s ''grey.png'' ''Grey'' = Inr (False, s1)"
    and l1: "length (m_textureIDs s1) = length (m_textureIDs s)"
    and n1: "m_loadedTextures s1 = m_loadedTextures s"
    and reg1: "registered s1 = registered s"
    and files1: "stbi_files s1 = stbi_files s"
    by (elim exE conjE) (rule that; assumption)
  have "stbi_files s1 ''glass.png'' = Some \<lparr>width = 32, height = 16, colorChannels = 4\<rparr>"
    by (simp add: files1 files s0 demo_files_def)
  moreover have "colorChannels \<lparr>width = 32, height = 16, colorChannels = 4\<rparr> = 3
      \<or> colorChannels \<lparr>width = 32, height = 16, colorChannels = 4\<rparr> = 4"
    by simp
  moreover have "length (m_textureIDs s1) \<le> m_loadedTextures s1"
    by (simp add: l1 n1 full)
  ultimately have "CreateGLTexture s1 ''glass.png'' ''Glass'' =
      Inl (ArrayIndexOutOfBounds (m_loadedTextures s1))"
    by (rule CreateGLTexture_overflows)
  then have glass: "CreateGLTexture s1 ''glass.png'' ''Glass'' = Inl (ArrayIndexOutOfBounds 16)"
    by (simp only: n1 full)
  have rest: "CreateGLTextures s [(''grey.png'', ''Grey''), (''glass.png'', ''Glass'')] =
      Inl (ArrayIndexOutOfBounds 16)"
    by (simp add: grey glass)
  show ?thesis
    by (simp only: CreateGLTextures_append run rest sum.case prod.case)
qed

text \<open>
  C8, amended. Take any run of \<^const>\<open>CreateGLTexture\<close> calls on a well-formed registry
  in which the files that load (decodable, 3 or 4 channels) fit into the free slots of
  the sixteen. The run returns normally. A call whose file cannot be decoded or has another channel count
  returns \<^verbatim>\<open>false\<close>, every other call returns \<^verbatim>\<open>true\<close>, and the tags
  registered are exactly those of the calls that loaded, in call order. Afterwards the
  tag of every call that loaded resolves: both lookups find a registered entry carrying
  it. When the tags are distinct and new, each resolves to its own slot: the number of
  entries registered before the run plus the number of earlier calls that loaded.
\<close>

theorem failed_load_is_isolated:
  assumes "registry_ok s"
    and "m_loadedTextures s + length (filter (\<lambda>c. loadable s (fst c)) calls) \<le> 16"
  shows "\<exists>s'. CreateGLTextures s calls = Inr (map (\<lambda>c. loadable s (fst c)) calls, s')
           \<and> registry_ok s'
           \<and> map tag (registered s') =
               map tag (registered s) @ map snd (filter (\<lambda>c. loadable s (fst c)) calls)
           \<and> (\<forall>k<length calls. loadable s (fst (calls ! k)) \<longrightarrow>
                 (\<exists>i<m_loadedTextures s'.
                    tag (registered s' ! i) = snd (calls ! k)
                    \<and> FindTextureSlot s' (snd (calls ! k)) = Inr (int i)
                    \<and> FindTextureID s' (snd (calls ! k)) = Inr (sint (ID (registered s' ! i)))))
           \<and> (distinct (map tag (registered s) @
                          map snd (filter (\<lambda>c. loadable s (fst c)) calls)) \<longrightarrow>
                (\<forall>k<length calls. loadable s (fst (calls ! k)) \<longrightarrow>
                   FindTextureSlot s' (snd (calls ! k)) =
                     Inr (int (m_loadedTextures s +
                               length (filter (\<lambda>c. loadable s (fst c)) (take k calls))))))"
proof -
  let ?P = "\<lambda>c. loadable s (fst c)"
  have room: "m_loadedTextures s + length (filter ?P calls) \<le> length (m_textureIDs s)"
    using assms by (simp add: registry_ok_def)
  from CreateGLTextures_run [OF room] obtain s' where s':
    "CreateGLTextures s calls = Inr (map ?P calls, s')"
    "length (m_textureIDs s') = length (m_textureIDs s)"
    "m_loadedTextures s' = m_loadedTextures s + length (filter ?P calls)"
    "map tag (registered s') = map tag (registered s) @ map snd (filter ?P calls)"
    by blast
  have ok': "registry_ok s'"
    using assms by (simp add: registry_ok_def s')
  have len: "length (registered s) = m_loadedTextures s"
    using assms(1) by (simp add: registered_length registry_ok_def)
  have len': "length (registered s') = m_loadedTextures s'"
    using ok' by (simp add: registered_length registry_ok_def)
  have resolvable: "\<forall>k<length calls. loadable s (fst (calls ! k)) \<longrightarrow>
      (\<exists>i<m_loadedTextures s'.
         tag (registered s' ! i) = snd (calls ! k)
         \<and> FindTextureSlot s' (snd (calls ! k)) = Inr (int i)
         \<and> FindTextureID s' (snd (calls ! k)) = Inr (sint (ID (registered s' ! i))))"
  proof (intro allI impI)
    fix k assume k: "k < length calls" and ld: "loadable s (fst (calls ! k))"
    then have "calls ! k \<in> set (filter ?P calls)" by simp
    then have "snd (calls ! k) \<in> set (map tag (registered s'))"
      by (simp add: s'(4))
    from lookup_first [OF ok' this]
    show "\<exists>i<m_loadedTextures s'.
         tag (registered s' ! i) = snd (calls ! k)
         \<and> FindTextureSlot s' (snd (calls ! k)) = Inr (int i)
         \<and> FindTextureID s' (snd (calls ! k)) = Inr (sint (ID (registered s' ! i)))"
      by blast
  qed
  have own_slot: "distinct (map tag (registered s) @ map snd (filter ?P calls)) \<longrightarrow>
      (\<forall>k<length calls. loadable s (fst (calls ! k)) \<longrightarrow>
         FindTextureSlot s' (snd (calls ! k)) =
           Inr (int (m_loadedTextures s + length (filter ?P (take k calls)))))"
  proof (intro allI impI)
    fix k
    assume dist: "distinct (map tag (registered s) @ map snd (filter ?P calls))"
      and k: "k < length calls" and ld: "loadable s (fst (calls ! k))"
    let ?p = "length (filter ?P (take k calls))"
    let ?i = "m_loadedTextures s + ?p"
    from filter_take_nth [of k calls ?P] k ld
    have p: "?p < length (filter ?P calls)" "filter ?P calls ! ?p = calls ! k" by simp_all
    have i: "?i < m_loadedTextures s'" using p(1) by (simp add: s'(3))
    have "map tag (registered s') ! ?i = snd (calls ! k)"
      using p by (simp add: s'(4) nth_append len)
    then have at_i: "tag (registered s' ! ?i) = snd (calls ! k)"
      using i len' by simp
    have before: "\<forall>j<?i. tag (registered s' ! j) \<noteq> snd (calls ! k)"
    proof (intro allI impI)
      fix j assume j: "j < ?i"
      have d: "distinct (map tag (registered s'))" using dist by (simp add: s'(4))
      have jl: "j < length (map tag (registered s'))"
        and il: "?i < length (map tag (registered s'))"
        using j i len' by simp_all
      have "(map tag (registered s') ! j = map tag (registered s') ! ?i) = (j = ?i)"
        using d jl il by (rule nth_eq_iff_index_eq)
      with j have "map tag (registered s') ! j \<noteq> map tag (registered s') ! ?i"
        by simp
      moreover have "map tag (registered s') ! j = tag (registered s' ! j)"
        using jl by simp
      moreover have "map tag (registered s') ! ?i = tag (registered s' ! ?i)"
        using il by simp
      ultimately show "tag (registered s' ! j) \<noteq> snd (calls ! k)"
        using at_i by simp
    qed
    from lookup_hit [OF ok' i at_i before]
    show "FindTextureSlot s' (snd (calls ! k)) = Inr (int ?i)" by simp
  qed
  show ?thesis
    using s'(1,4) ok' resolvable own_slot by blast
qed

text \<open>A scene manager fresh from its constructor, in the world of the concrete runs.\<close>

lemma fresh_scene_fields:
  "registry_ok (SceneManager p demo_world)"
  "m_loadedTextures (SceneManager p demo_world) = 0"
  "length (m_textureIDs (SceneManager p demo_world)) = 16"
  "registered (SceneManager p demo_world) = []"
  "stbi_files (SceneManager p demo_world) = demo_files"
  "gl_generated (SceneManager p demo_world) = 0"
  "gl_names (SceneManager p demo_world) = (\<lambda>n. of_nat (n + 1))"
  by (simp_all add: SceneManager_def demo_world_def registry_ok_def registered_def)

lemma demo_loadable:
  "loadable (SceneManager p demo_world) ''wood.jpg''"
  "loadable (SceneManager p demo_world) ''glass.png''"
  "\<not> loadable (SceneManager p demo_world) ''grey.png''"
  "\<not> loadable (SceneManager p demo_world) ''missing.jpg''"
  by (simp_all add: loadable_def fresh_scene_fields demo_files_def)

theorem failed_load_is_isolated_witness:
  "registry_ok (SceneManager None demo_world)
   \<and> m_loadedTextures (SceneManager None demo_world) +
       length (filter (\<lambda>c. loadable (SceneManager None demo_world) (fst c))
         [(''wood.jpg'', ''Wood''), (''grey.png'', ''Grey''), (''glass.png'', ''Glass'')]) \<le> 16
   \<and> (\<exists>s'. CreateGLTextures (SceneManager None demo_world)
               [(''wood.jpg'', ''Wood''), (''grey.png'', ''Grey''), (''glass.png'', ''Glass'')] =
             Inr ([True, False, True], s')
         \<and> map tag (registered s') = [''Wood'', ''Glass'']
         \<and> FindTextureSlot s' ''Wood'' = Inr 0
         \<and> FindTextureSlot s' ''Glass'' = Inr 1)"
proof -
  let ?s = "SceneManager None demo_world"
  let ?calls = "[(''wood.jpg'', ''Wood''), (''grey.png'', ''Grey''), (''glass.png'', ''Glass'')]"
  let ?P = "\<lambda>c. loadable ?s (fst c)"
  have ok: "registry_ok ?s" by (rule fresh_scene_fields)
  have room: "m_loadedTextures ?s + length (filter ?P ?calls) \<le> 16"
    by (simp add: fresh_scene_fields demo_loadable)
  have results: "map ?P ?calls = [True, False, True]"
    by (simp add: demo_loadable)
  have tags: "map tag (registered ?s) @ map snd (filter ?P ?calls) = [''Wood'', ''Glass'']"
    by (simp add: demo_loadable fresh_scene_fields)
  have dist: "distinct (map tag (registered ?s) @ map snd (filter ?P ?calls))"
    by (simp add: demo_loadable fresh_scene_fields)
  have k0: "0 < length ?calls" "loadable ?s (fst (?calls ! 0))" "snd (?calls ! 0) = ''Wood''"
    "int (m_loadedTextures ?s + length (filter ?P (take 0 ?calls))) = 0"
    by (simp_all add: demo_loadable fresh_scene_fields)
  have k2: "2 < length ?calls" "loadable ?s (fst (?calls ! 2))" "snd (?calls ! 2) = ''Glass''"
    "int (m_loadedTextures ?s + length (filter ?P (take 2 ?calls))) = 1"
    by (simp_all add: demo_loadable fresh_scene_fields)
  from failed_load_is_isolated [OF ok room] obtain s' where
    run: "CreateGLTextures ?s ?calls = Inr (map ?P ?calls, s')"
    and reg: "map tag (registered s') = map tag (registered ?s) @ map snd (filter ?P ?calls)"
    and own: "distinct (map tag (registered ?s) @ map snd (filter ?P ?calls)) \<longrightarrow>
       (\<forall>k<length ?calls. loadable ?s (fst (?calls ! k)) \<longrightarrow>
          FindTextureSlot s' (snd (?calls ! k)) =
            Inr (int (m_loadedTextures ?s + length (filter ?P (take k ?calls)))))"
    by (elim exE conjE) (rule that; assumption)
  have a: "CreateGLTextures ?s ?calls = Inr ([True, False, True], s')"
    using run by (simp only: results)
  have b: "map tag (registered s') = [''Wood'', ''Glass'']"
    using reg by (simp only: tags)
  from own dist have slots: "\<forall>k<length ?calls. loadable ?s (fst (?calls ! k)) \<longrightarrow>
          FindTextureSlot s' (snd (?calls ! k)) =
            Inr (int (m_loadedTextures ?s + length (filter ?P (take k ?calls))))"
    by (rule mp)
  from slots [rule_format, OF k0(1) k0(2)] have c: "FindTextureSlot s' ''Wood'' = Inr 0"
    by (simp only: k0(3) k0(4))
  from slots [rule_format, OF k2(1) k2(2)] have d: "FindTextureSlot s' ''Glass'' = Inr 1"
    by (simp only: k2(3) k2(4))
  from a b c d have "\<exists>s'. CreateGLTextures ?s ?calls = Inr ([True, False, True], s')
         \<and> map tag (registered s') = [''Wood'', ''Glass'']
         \<and> FindTextureSlot s' ''Wood'' = Inr 0
         \<and> FindTextureSlot s' ''Glass'' = Inr 1"
    by (intro exI [of _ s'] conjI)
  with ok room show ?thesis by (intro conjI)
qed

subsection \<open>The seventeenth texture\<close>

text \<open>
  C4, at the input where the code departs from it. Sixteen loads fill the sixteen
  entries of \<^verbatim>\<open>m_textureIDs\<close>, each returning \<^verbatim>\<open>true\<close>. A seventeenth load of
  a file that decodes is not rejected with \<^verbatim>\<open>false\<close>: \<^const>\<open>CreateGLTexture\<close>
  has no capacity check and writes \<^verbatim>\<open>m_textureIDs[16]\<close>, past the end of the array.
\<close>

theorem CreateGLTexture_seventeenth:
  "\<exists>s. CreateGLTextures (SceneManager None demo_world) (replicate 16 (''wood.jpg'', ''Wood'')) =
          Inr (replicate 16 True, s)
       \<and> m_loadedTextures s = 16
       \<and> length (m_textureIDs s) = 16
       \<and> CreateGLTexture s ''glass.png'' ''Glass'' = Inl (ArrayIndexOutOfBounds 16)"
proof -
  let ?s = "SceneManager None demo_world"
  let ?calls = "replicate 16 (''wood.jpg'', ''Wood'')"
  let ?P = "\<lambda>c. loadable ?s (fst c)"
  have "m_loadedTextures ?s + length (filter ?P ?calls) \<le> length (m_textureIDs ?s)"
    by (simp add: fresh_scene_fields demo_loadable)
  from CreateGLTextures_run [OF this] obtain s where
    run: "CreateGLTextures ?s ?calls = Inr (map ?P ?calls, s)"
    and l: "length (m_textureIDs s) = length (m_textureIDs ?s)"
    and n: "m_loadedTextures s = m_loadedTextures ?s + length (filter ?P ?calls)"
    and files: "stbi_files s = stbi_files ?s"
    by (elim exE conjE) (rule that; assumption)
  have results: "map ?P ?calls = replicate 16 True"
    by (simp add: demo_loadable)
  have a: "CreateGLTextures ?s ?calls = Inr (replicate 16 True, s)"
    using run by (simp only: results)
  have b: "m_loadedTextures s = 16" "length (m_textureIDs s) = 16"
    using l n by (simp_all add: fresh_scene_fields demo_loadable)
  have "stbi_files s ''glass.png'' = Some \<lparr>width = 32, height = 16, colorChannels = 4\<rparr>"
    by (simp add: files fresh_scene_fields demo_files_def)
  moreover have "colorChannels \<lparr>width = 32, height = 16, colorChannels = 4\<rparr> = 3
      \<or> colorChannels \<lparr>width = 32, height = 16, colorChannels = 4\<rparr> = 4"
    by simp
  moreover have "length (m_textureIDs s) \<le> m_loadedTextures s"
    by (simp add: b)
  ultimately have "CreateGLTexture s ''glass.png'' ''Glass'' =
      Inl (ArrayIndexOutOfBounds (m_loadedTextures s))"
    by (rule CreateGLTexture_overflows)
  then have c: "CreateGLTexture s ''glass.png'' ''Glass'' = Inl (ArrayIndexOutOfBounds 16)"
    by (simp only: b)
  from a b c show ?thesis
    by (intro exI [of _ s] conjI)
qed

subsection \<open>Teardown\<close>

text \<open>
  C5, at the input where the code departs from it. With the textures 1 and 2
  registered, \<^const>\<open>DestroyGLTextures\<close> issues no \<^verbatim>\<open>glDeleteTextures\<close> at all. It
  issues \<^verbatim>\<open>glGenTextures\<close> twice: the driver allocates the new names 3 and 4, which
  overwrite the stored handles, and the textures 1 and 2 are never released.
\<close>

theorem DestroyGLTextures_generates:
  "registry_ok demo_loaded
   \<and> map ID (registered demo_loaded) = [1, 2]
   \<and> (\<exists>s'. DestroyGLTextures demo_loaded = Inr s'
         \<and> gl_calls s' = gl_calls demo_loaded @ [glGenTextures 3, glGenTextures 4]
         \<and> map ID (registered s') = [3, 4])"
proof -
  have ok: "registry_ok demo_loaded" by (rule demo_loaded_fields)
  have "m_loadedTextures demo_loaded \<le> length (m_textureIDs demo_loaded)"
    by (simp add: demo_loaded_def)
  from DestroyGLTextures_loop_generates [OF this, of 0] obtain s' where
    run: "DestroyGLTextures_loop demo_loaded 0 = Inr s'"
    and n: "m_loadedTextures s' = m_loadedTextures demo_loaded"
    and l: "length (m_textureIDs s') = length (m_textureIDs demo_loaded)"
    and calls: "gl_calls s' = gl_calls demo_loaded @
       map (\<lambda>k. glGenTextures (gl_names demo_loaded (gl_generated demo_loaded + k)))
         [0..<m_loadedTextures demo_loaded - 0]"
    and ids: "\<forall>u<length (m_textureIDs demo_loaded). m_textureIDs s' ! u =
       (if 0 \<le> u \<and> u < m_loadedTextures demo_loaded
        then (m_textureIDs demo_loaded ! u)
               \<lparr>ID := gl_names demo_loaded (gl_generated demo_loaded + (u - 0))\<rparr>
        else m_textureIDs demo_loaded ! u)"
    by (elim exE conjE) (rule that; assumption)
  have two: "[0..<2] = [0, Suc 0]" by (simp add: upt_rec)
  have a: "DestroyGLTextures demo_loaded = Inr s'"
    using run by (simp only: DestroyGLTextures_def)
  have b: "gl_calls s' = gl_calls demo_loaded @ [glGenTextures 3, glGenTextures 4]"
    using calls two by (simp add: demo_loaded_fields)
  have len: "length (m_textureIDs s') = 16" "m_loadedTextures s' = 2"
    using n l by (simp_all add: demo_loaded_def)
  have u0: "(0::nat) < length (m_textureIDs demo_loaded)"
    and u1: "(1::nat) < length (m_textureIDs demo_loaded)"
    by (simp_all add: demo_loaded_def)
  have "ID (m_textureIDs s' ! 0) = 3"
    using ids [rule_format, OF u0] by (simp add: demo_loaded_fields)
  moreover have "ID (m_textureIDs s' ! 1) = 4"
    using ids [rule_format, OF u1] by (simp add: demo_loaded_fields)
  moreover have "registered s' = [m_textureIDs s' ! 0, m_textureIDs s' ! 1]"
    using len by (simp add: registered_def numeral_2_eq_2 take_Suc_conv_app_nth)
  ultimately have c: "map ID (registered s') = [3, 4]" by simp
  have d: "map ID (registered demo_loaded) = [1, 2]" by (simp add: demo_loaded_fields)
  from a b c have "\<exists>s'. DestroyGLTextures demo_loaded = Inr s'
         \<and> gl_calls s' = gl_calls demo_loaded @ [glGenTextures 3, glGenTextures 4]
         \<and> map ID (registered s') = [3, 4]"
    by (intro exI [of _ s'] conjI)
  with ok d show ?thesis by (intro conjI)
qed

end
